theory Spec2Isabelle
  imports Main "HOL-Library.Word" "HOL-Library.Multiset"
begin

unbundle bit_operations_syntax

section \<open>Representation\<close>

text \<open>
  The development embeds \<^verbatim>\<open>src/types/transaction.ts\<close> (\<^verbatim>\<open>toEthTx\<close>,
  \<^verbatim>\<open>toTypedEthTx\<close>, \<^verbatim>\<open>addSignature\<close>), \<^verbatim>\<open>src/types/storeItem.ts\<close> and the
  \<^verbatim>\<open>transform\<close> function of \<^verbatim>\<open>src/main.ts\<close>.

  \<^item> A Starknet field element and every hex-encoded quantity the code converts with
    \<^verbatim>\<open>BigInt\<close>, \<^verbatim>\<open>Number\<close> or \<^verbatim>\<open>bigIntToHex\<close> is represented by the natural number it
    encodes; JavaScript \<^verbatim>\<open>bigint\<close> values are unbounded, so they are \<open>nat\<close>.
  \<^item> Hex strings that the code only passes along are \<open>string\<close>.
  \<^item> A \<^verbatim>\<open>Uint8Array\<close> is a list of 8-bit words; the 2048-bit logs bloom is a
    \<open>2048 word\<close>, so that \<^verbatim>\<open>Bloom.or\<close> is the bitwise \<open>OR\<close>. The \<^verbatim>\<open>logsBloom\<close>
    string of a receipt is represented by the 256 bytes it encodes.
  \<^item> A value that may be \<^verbatim>\<open>undefined\<close> or \<^verbatim>\<open>null\<close> is an \<open>option\<close>; where the code
    treats the two differently, as for the transaction index of a receipt, it is an
    \<open>optional\<close>.
  \<^item> A thrown value is \<open>Inl\<close> of a sum; a line written with \<^verbatim>\<open>console.error\<close> is
    returned in a list of strings next to the result.
  \<^item> Record fields carry a short prefix, since a field name is a global constant.
  \<^item> The \<^verbatim>\<open>createdAt: new Date()\<close> stamp of a store item is wall-clock time and is left
    out of the store items.
\<close>

type_synonym felt = nat
type_synonym bytes = "8 word list"
type_synonym bloom = "2048 word"
type_synonym accessList = "(string \<times> string list) list"

subsection \<open>Decimal printing of numbers in template strings\<close>

definition digit :: "nat \<Rightarrow> char" where
  "digit d = (''0123456789'' ! d)"

fun toString :: "nat \<Rightarrow> string" where
  "toString n = (if n < 10 then [digit n] else toString (n div 10) @ [digit (n mod 10)])"

declare toString.simps [simp del]

subsection \<open>Thrown values\<close>

datatype thrown = Error string | TypeError string | NonError string

fun instanceof_Error :: "thrown \<Rightarrow> bool" where
  "instanceof_Error (Error m) = True"
| "instanceof_Error (TypeError m) = True"
| "instanceof_Error (NonError x) = False"

fun message :: "thrown \<Rightarrow> string" where
  "message (Error m) = m"
| "message (TypeError m) = m"
| "message (NonError x) = x"

definition bind_thrown :: "thrown + 'a \<Rightarrow> ('a \<Rightarrow> thrown + 'b) \<Rightarrow> thrown + 'b" where
  "bind_thrown m f = (case m of Inl e \<Rightarrow> Inl e | Inr x \<Rightarrow> f x)"

section \<open>Data\<close>

subsection \<open>The Starknet side\<close>

datatype 'a optional = Undefined | Null | Defined 'a

record invokeTransactionV1 =
  iv_calldata :: "felt list"

record transactionMeta =
  tm_signature :: "felt list"

record transaction =
  st_invokeV1 :: "invokeTransactionV1 option"
  st_meta :: transactionMeta

record event =
  ev_fromAddress :: felt
  ev_keys :: "felt list"
  ev_data :: "felt list"

record transactionReceipt =
  rc_transactionIndex :: "nat optional"
  rc_events :: "event list"

record eventWithTransaction =
  ewt_transaction :: transaction
  ewt_receipt :: transactionReceipt
  ewt_event :: event

record blockHeader =
  bh_blockNumber :: string
  bh_blockHash :: string
  bh_parentBlockHash :: string
  bh_timestamp :: string

subsection \<open>Typed Ethereum transactions\<close>

datatype txType = Legacy | AccessListEIP2930 | FeeMarketEIP1559 | BlobEIP4844

fun txTypeNumber :: "txType \<Rightarrow> nat" where
  "txTypeNumber Legacy = 0"
| "txTypeNumber AccessListEIP2930 = 1"
| "txTypeNumber FeeMarketEIP1559 = 2"
| "txTypeNumber BlobEIP4844 = 3"

text \<open>
  A \<^verbatim>\<open>TypedTransaction\<close> object of the transaction library, with the properties the code
  reads. An address is held as the string its \<^verbatim>\<open>toString()\<close> returns.
\<close>

record typedTransaction =
  tx_type :: txType
  tx_chainId :: "nat option"
  tx_nonce :: nat
  tx_gasPrice :: "nat option"
  tx_maxPriorityFeePerGas :: "nat option"
  tx_maxFeePerGas :: "nat option"
  tx_gasLimit :: nat
  tx_to :: "string option"
  tx_value :: nat
  tx_data :: bytes
  tx_accessList :: "accessList option"
  tx_v :: "nat option"
  tx_r :: "nat option"
  tx_s :: "nat option"

text \<open>The object literals handed to the three \<^verbatim>\<open>fromTxData\<close> constructors.\<close>

record txData =
  td_chainId :: "nat option"
  td_nonce :: nat
  td_gasPrice :: "nat option"
  td_maxPriorityFeePerGas :: "nat option"
  td_maxFeePerGas :: "nat option"
  td_gasLimit :: nat
  td_to :: "string option"
  td_value :: nat
  td_data :: bytes
  td_accessList :: "accessList option"
  td_v :: nat
  td_r :: nat
  td_s :: nat

text \<open>What \<^verbatim>\<open>transaction.toJSON()\<close> returns: every property is optional.\<close>

record jsonTx =
  js_nonce :: "string option"
  js_gasPrice :: "string option"
  js_maxPriorityFeePerGas :: "string option"
  js_maxFeePerGas :: "string option"
  js_gasLimit :: "string option"
  js_value :: "string option"
  js_data :: "string option"
  js_accessList :: "accessList option"
  js_chainId :: "string option"
  js_v :: "string option"
  js_r :: "string option"
  js_s :: "string option"
  js_maxFeePerBlobGas :: "string option"
  js_blobVersionedHashes :: "string list option"

record jsonRpcTx =
  jr_blockHash :: string
  jr_blockNumber :: string
  jr_from :: string
  jr_gas :: "string option"
  jr_gasPrice :: "string option"
  jr_maxFeePerGas :: "string option"
  jr_maxPriorityFeePerGas :: "string option"
  jr_type :: string
  jr_accessList :: "accessList option"
  jr_chainId :: "string option"
  jr_hash :: string
  jr_input :: "string option"
  jr_nonce :: "string option"
  jr_to :: "string option"
  jr_transactionIndex :: nat
  jr_value :: "string option"
  jr_v :: string
  jr_r :: string
  jr_s :: string
  jr_maxFeePerBlobGas :: "string option"
  jr_blobVersionedHashes :: "string list option"

subsection \<open>Logs, receipts, headers and store items\<close>

text \<open>
  Modelled from the spec: \<^verbatim>\<open>types/log.ts\<close>, \<^verbatim>\<open>types/receipt.ts\<close> and
  \<^verbatim>\<open>types/header.ts\<close> are not among the sources, so the record shapes
  \<^verbatim>\<open>JsonRpcLog\<close>, \<^verbatim>\<open>JsonRpcReceipt\<close> and the header record follow the spec's data
  model. Of these fields \<^verbatim>\<open>transform\<close> itself reads \<^verbatim>\<open>gasUsed\<close> and \<^verbatim>\<open>logsBloom\<close> of a
  receipt and writes \<^verbatim>\<open>logIndex\<close> of a log.
\<close>

record jsonRpcLog =
  lg_logIndex :: "string option"
  lg_transactionIndex :: nat
  lg_transactionHash :: string
  lg_blockHash :: string
  lg_blockNumber :: string
  lg_address :: string
  lg_topics :: "string list"
  lg_data :: string

record jsonRpcReceipt =
  rp_transactionHash :: string
  rp_transactionIndex :: nat
  rp_blockHash :: string
  rp_blockNumber :: string
  rp_from :: string
  rp_to :: "string option"
  rp_cumulativeGasUsed :: nat
  rp_gasUsed :: nat
  rp_logs :: "jsonRpcLog list"
  rp_logsBloom :: bloom
  rp_status :: nat
  rp_type :: string

record txReceipt =
  tr_status :: nat
  tr_cumulativeBlockGasUsed :: nat
  tr_bitvector :: bloom
  tr_logs :: "jsonRpcLog list"

record jsonRpcBlock =
  hd_number :: string
  hd_hash :: string
  hd_parentHash :: string
  hd_timestamp :: string
  hd_gasUsed :: nat
  hd_logsBloom :: bloom
  hd_receiptsRoot :: bytes
  hd_transactionsRoot :: bytes

text \<open>\<^verbatim>\<open>StoreItem\<close>: the collection tag decides the shape of the data.\<close>

datatype storeItem =
  Transactions jsonRpcTx
| Receipts jsonRpcReceipt
| Logs jsonRpcLog
| Headers jsonRpcBlock

fun collection :: "storeItem \<Rightarrow> string" where
  "collection (Transactions t) = ''transactions''"
| "collection (Receipts rcpt) = ''receipts''"
| "collection (Logs l) = ''logs''"
| "collection (Headers h) = ''headers''"

section \<open>What the code imports\<close>

text \<open>
  \<^verbatim>\<open>deps.ts\<close> re-exports the transaction, trie, RLP and Starknet libraries. They are
  not part of the repository, so their functions are parameters of the model: every
  theorem below holds for every \<open>deps\<close>. A constructor or parser may throw, which the
  code expects (it calls them inside \<^verbatim>\<open>try\<close>). The methods \<^verbatim>\<open>toJSON\<close>,
  \<^verbatim>\<open>getSenderAddress\<close> and \<^verbatim>\<open>hash\<close> of a transaction may throw as well (the sender
  is recovered from the signature, which can fail), and \<^verbatim>\<open>toEthTx\<close> calls them
  outside any \<^verbatim>\<open>try\<close>.
\<close>

record deps =
  bigIntToBytes :: "nat \<Rightarrow> bytes"
  intToHex :: "nat \<Rightarrow> string"
  fromSerializedData :: "bytes \<Rightarrow> thrown + typedTransaction"
  fromTxData :: "typedTransaction \<Rightarrow> thrown + typedTransaction"
  LegacyTransaction_fromTxData :: "txData \<Rightarrow> thrown + typedTransaction"
  AccessListEIP2930Transaction_fromTxData :: "txData \<Rightarrow> thrown + typedTransaction"
  FeeMarketEIP1559Transaction_fromTxData :: "txData \<Rightarrow> thrown + typedTransaction"
  toJSON :: "typedTransaction \<Rightarrow> thrown + jsonTx"
  getSenderAddress :: "typedTransaction \<Rightarrow> thrown + string"
  txHash :: "typedTransaction \<Rightarrow> thrown + bytes"
  serialize :: "typedTransaction \<Rightarrow> bytes"
  encodeReceipt :: "txReceipt \<Rightarrow> txType \<Rightarrow> bytes"
  trieRoot :: "(nat \<times> bytes) list \<Rightarrow> bytes"

text \<open>
  The repository's own modules \<^verbatim>\<open>utils/hex.ts\<close>, \<^verbatim>\<open>types/log.ts\<close>,
  \<^verbatim>\<open>types/receipt.ts\<close> and \<^verbatim>\<open>types/header.ts\<close> are not among the sources either.
  Their exported functions are parameters as well; \<open>spec_helpers\<close> further down
  instantiates them from the spec for the closed examples.
\<close>

record helpers =
  padString :: "string \<Rightarrow> nat \<Rightarrow> string"
  toHexString :: "string \<Rightarrow> string"
  padBytes :: "bytes \<Rightarrow> nat \<Rightarrow> string"
  toEthLog :: "jsonRpcTx \<Rightarrow> event \<Rightarrow> string \<Rightarrow> string \<Rightarrow> jsonRpcLog option"
  toEthReceipt ::
    "jsonRpcTx \<Rightarrow> jsonRpcLog list \<Rightarrow> event \<Rightarrow> nat \<Rightarrow> string \<Rightarrow> string \<Rightarrow> jsonRpcReceipt"
  fromJsonRpcReceipt :: "jsonRpcReceipt \<Rightarrow> txReceipt"
  toEthHeader ::
    "blockHeader \<Rightarrow> nat \<Rightarrow> bloom \<Rightarrow> bytes \<Rightarrow> bytes \<Rightarrow> string \<Rightarrow> string
      \<Rightarrow> thrown + jsonRpcBlock"

text \<open>
  The library's type guards test the type tag of the transaction.
\<close>

definition isLegacyTx :: "typedTransaction \<Rightarrow> bool" where
  "isLegacyTx tx = (tx_type tx = Legacy)"

definition isAccessListEIP2930Tx :: "typedTransaction \<Rightarrow> bool" where
  "isAccessListEIP2930Tx tx = (tx_type tx = AccessListEIP2930)"

definition isFeeMarketEIP1559TxData :: "typedTransaction \<Rightarrow> bool" where
  "isFeeMarketEIP1559TxData tx = (tx_type tx = FeeMarketEIP1559)"

text \<open>
  Modelled from the spec: \<^verbatim>\<open>uint256.uint256ToBN\<close> belongs to the Starknet library; the
  spec gives what it computes from the two limbs, \<^verbatim>\<open>high << 128 | low\<close>.
\<close>

definition uint256ToBN :: "felt \<Rightarrow> felt \<Rightarrow> nat" where
  "uint256ToBN high low = push_bit 128 high OR low"

section \<open>types/transaction.ts\<close>

subsection \<open>addSignature\<close>

text \<open>
  The inner arrow function picks the constructor by the type of \<open>tx\<close> and copies the
  fields that variant has; its result goes through \<^verbatim>\<open>TransactionFactory.fromTxData\<close>.
  The two \<^verbatim>\<open>throw new Error\<close> statements are the \<open>Inl\<close> branches.
\<close>

definition legacyTxData :: "typedTransaction \<Rightarrow> nat \<Rightarrow> nat \<Rightarrow> nat \<Rightarrow> txData" where
  "legacyTxData tx r s v =
     \<lparr>td_chainId = None, td_nonce = tx_nonce tx, td_gasPrice = tx_gasPrice tx,
      td_maxPriorityFeePerGas = None, td_maxFeePerGas = None, td_gasLimit = tx_gasLimit tx,
      td_to = tx_to tx, td_value = tx_value tx, td_data = tx_data tx, td_accessList = None,
      td_v = v, td_r = r, td_s = s\<rparr>"

definition accessListTxData :: "typedTransaction \<Rightarrow> nat \<Rightarrow> nat \<Rightarrow> nat \<Rightarrow> txData" where
  "accessListTxData tx r s v =
     \<lparr>td_chainId = tx_chainId tx, td_nonce = tx_nonce tx, td_gasPrice = tx_gasPrice tx,
      td_maxPriorityFeePerGas = None, td_maxFeePerGas = None, td_gasLimit = tx_gasLimit tx,
      td_to = tx_to tx, td_value = tx_value tx, td_data = tx_data tx,
      td_accessList = tx_accessList tx, td_v = v, td_r = r, td_s = s\<rparr>"

definition feeMarketTxData :: "typedTransaction \<Rightarrow> nat \<Rightarrow> nat \<Rightarrow> nat \<Rightarrow> txData" where
  "feeMarketTxData tx r s v =
     \<lparr>td_chainId = tx_chainId tx, td_nonce = tx_nonce tx, td_gasPrice = None,
      td_maxPriorityFeePerGas = tx_maxPriorityFeePerGas tx,
      td_maxFeePerGas = tx_maxFeePerGas tx, td_gasLimit = tx_gasLimit tx,
      td_to = tx_to tx, td_value = tx_value tx, td_data = tx_data tx,
      td_accessList = tx_accessList tx, td_v = v, td_r = r, td_s = s\<rparr>"

definition addSignature ::
  "deps \<Rightarrow> typedTransaction \<Rightarrow> nat \<Rightarrow> nat \<Rightarrow> nat \<Rightarrow> thrown + typedTransaction" where
  "addSignature D tx r s v =
     bind_thrown
       (if isLegacyTx tx then
          (if v < 35 then Inl (Error (''Invalid v value: '' @ toString v))
           else LegacyTransaction_fromTxData D (legacyTxData tx r s v))
        else if isAccessListEIP2930Tx tx then
          AccessListEIP2930Transaction_fromTxData D (accessListTxData tx r s v)
        else if isFeeMarketEIP1559TxData tx then
          FeeMarketEIP1559Transaction_fromTxData D (feeMarketTxData tx r s v)
        else Inl (Error ''Invalid transaction type: [object Object]''))
       (fromTxData D)"

subsection \<open>toTypedEthTx\<close>

text \<open>
  The body of the \<^verbatim>\<open>try\<close> block, and its \<^verbatim>\<open>catch\<close> clause applied to what the body
  returns or throws.
\<close>

definition tryBody :: "deps \<Rightarrow> bytes \<Rightarrow> nat \<Rightarrow> nat \<Rightarrow> nat \<Rightarrow> thrown + typedTransaction" where
  "tryBody D bytes r s v =
     bind_thrown (fromSerializedData D bytes)
       (\<lambda>ethTxUnsigned. addSignature D ethTxUnsigned r s v)"

definition catchClause ::
  "thrown + typedTransaction \<Rightarrow> string list \<times> (thrown + typedTransaction option)" where
  "catchClause res =
     (case res of
        Inr ethTx \<Rightarrow> ([], Inr (Some ethTx))
      | Inl e \<Rightarrow>
          if instanceof_Error e then ([''Invalid transaction: '' @ message e], Inr None)
          else ([''Unknown throw '' @ message e], Inl e))"

text \<open>
  The result is the list of \<^verbatim>\<open>console.error\<close> lines and then either the thrown value
  or the returned transaction, \<open>None\<close> for \<^verbatim>\<open>null\<close>.

  \<^verbatim>\<open>!calldata\<close> holds for an absent \<^verbatim>\<open>calldata\<close> only: an empty array is truthy in
  JavaScript. For an empty array \<^verbatim>\<open>calldata[0]\<close> is \<^verbatim>\<open>undefined\<close> and
  \<^verbatim>\<open>BigInt(undefined)\<close> throws a \<^verbatim>\<open>TypeError\<close>, outside the \<^verbatim>\<open>try\<close> block.
  \<^verbatim>\<open>calldata.slice(6)\<close> is \<open>drop 6\<close>, empty for a shorter array. The signature is
  indexed only after its length is known to be 5.
\<close>

definition toTypedEthTx ::
  "deps \<Rightarrow> transaction \<Rightarrow> string list \<times> (thrown + typedTransaction option)" where
  "toTypedEthTx D transaction =
     (case map_option iv_calldata (st_invokeV1 transaction) of
        None \<Rightarrow> ([''No calldata''], Inr None)
      | Some calldata \<Rightarrow>
          (case calldata of
             [] \<Rightarrow> ([], Inl (TypeError ''Cannot convert undefined to a BigInt''))
           | callArrayLen # rest \<Rightarrow>
               if callArrayLen \<noteq> 1 then
                 ([''Invalid call array length '' @ toString callArrayLen], Inr None)
               else
                 let bytes = concat (map (bigIntToBytes D) (drop 6 calldata));
                     signature = tm_signature (st_meta transaction)
                 in if length signature \<noteq> 5 then
                      ([''Invalid signature length '' @ toString (length signature)], Inr None)
                    else
                      let r = uint256ToBN (signature ! 1) (signature ! 0);
                          s = uint256ToBN (signature ! 3) (signature ! 2);
                          v = signature ! 4
                      in catchClause (tryBody D bytes r s v)))"

subsection \<open>toEthTx\<close>

definition showOpt :: "string option \<Rightarrow> string" where
  "showOpt x = (case x of None \<Rightarrow> ''undefined'' | Some y \<Rightarrow> y)"

definition orElse :: "'a option \<Rightarrow> 'a option \<Rightarrow> 'a option" where
  "orElse x y = (case x of None \<Rightarrow> y | Some a \<Rightarrow> Some a)"

definition indexUndefinedMessage :: string where
  "indexUndefinedMessage =
     ''Known bug (apibara): Transaction index is undefined - Transaction index will be set to 0.''"

text \<open>
  The result is the list of \<^verbatim>\<open>console.error\<close> lines and then the thrown value or the
  returned record, \<open>None\<close> for \<^verbatim>\<open>null\<close>. The diagnostic is written for
  \<^verbatim>\<open>index === undefined\<close> only, while \<^verbatim>\<open>index ?? 0\<close> is 0 for an undefined and for a
  null index. The properties of the returned object are evaluated in the order they
  are written, so \<^verbatim>\<open>getSenderAddress()\<close> is called before \<^verbatim>\<open>hash()\<close>; what either of
  them or \<^verbatim>\<open>toJSON()\<close> throws leaves \<^verbatim>\<open>toEthTx\<close> as it is, there being no \<^verbatim>\<open>try\<close>.
  The message of the source has a warning sign after the colon, which is dropped here.
\<close>

definition toEthTx ::
  "deps \<Rightarrow> helpers \<Rightarrow> typedTransaction \<Rightarrow> transactionReceipt \<Rightarrow> string \<Rightarrow> string
    \<Rightarrow> string list \<times> (thrown + jsonRpcTx option)" where
  "toEthTx D H transaction receipt blockNumber blockHash =
     (let index = rc_transactionIndex receipt;
          log1 = (if index = Undefined then [indexUndefinedMessage] else [])
      in case toJSON D transaction of
           Inl e \<Rightarrow> (log1, Inl e)
         | Inr txJSON \<Rightarrow>
             (case (js_r txJSON, js_s txJSON, js_v txJSON) of
                (Some r, Some s, Some v) \<Rightarrow>
                  (case getSenderAddress D transaction of
                     Inl e \<Rightarrow> (log1, Inl e)
                   | Inr sender \<Rightarrow>
                       (case txHash D transaction of
                          Inl e \<Rightarrow> (log1, Inl e)
                        | Inr h \<Rightarrow>
                            (log1,
                             Inr (Some
                               \<lparr>jr_blockHash = blockHash,
                                jr_blockNumber = blockNumber,
                                jr_from = sender,
                                jr_gas = js_gasLimit txJSON,
                                jr_gasPrice = orElse (js_gasPrice txJSON) (js_maxFeePerGas txJSON),
                                jr_maxFeePerGas = js_maxFeePerGas txJSON,
                                jr_maxPriorityFeePerGas = js_maxPriorityFeePerGas txJSON,
                                jr_type = intToHex D (txTypeNumber (tx_type transaction)),
                                jr_accessList = js_accessList txJSON,
                                jr_chainId = js_chainId txJSON,
                                jr_hash = padBytes H h 32,
                                jr_input = js_data txJSON,
                                jr_nonce = js_nonce txJSON,
                                jr_to = tx_to transaction,
                                jr_transactionIndex =
                                  (case index of Defined i \<Rightarrow> i | _ \<Rightarrow> 0),
                                jr_value = js_value txJSON,
                                jr_v = v,
                                jr_r = r,
                                jr_s = s,
                                jr_maxFeePerBlobGas = js_maxFeePerBlobGas txJSON,
                                jr_blobVersionedHashes = js_blobVersionedHashes txJSON\<rparr>))))
              | _ \<Rightarrow>
                  (log1 @ [''Transaction is not signed: {r: '' @ showOpt (js_r txJSON)
                            @ '', s: '' @ showOpt (js_s txJSON) @ '', v: ''
                            @ showOpt (js_v txJSON) @ ''}''],
                   Inr None)))"

section \<open>main.ts: transform\<close>

text \<open>
  \<^verbatim>\<open>transform\<close> maps an \<^verbatim>\<open>async\<close> arrow function over the events and awaits
  \<^verbatim>\<open>Promise.all\<close> of the promises. \<^verbatim>\<open>Array.prototype.map\<close> calls the arrow function for
  one event after the other, and each call runs until its first \<^verbatim>\<open>await\<close> before it
  returns its promise. The arrow function has two \<^verbatim>\<open>await\<close>s, so it falls into three
  parts:
  \<^item> \<open>task_start\<close>, from the top to the call of \<^verbatim>\<open>transactionTrie.put\<close>: it decodes,
    formats, builds the receipt from the current value of \<^verbatim>\<open>cumulativeGasUsed\<close>, and
    calls the first \<^verbatim>\<open>put\<close>. These parts run in delivery order, all of them before any
    later part. What \<^verbatim>\<open>toTypedEthTx\<close> or \<^verbatim>\<open>toEthTx\<close> throws rejects the promise of
    the task.
  \<^item> \<open>task_afterTransactionPut\<close>, between the two \<^verbatim>\<open>await\<close>s: it encodes the receipt
    and calls \<^verbatim>\<open>receiptTrie.put\<close>.
  \<^item> \<open>task_afterReceiptPut\<close>, after the second \<^verbatim>\<open>await\<close>: it updates the block bloom
    and \<^verbatim>\<open>cumulativeGasUsed\<close> and pushes the store items.
  When the two \<^verbatim>\<open>put\<close> promises of a task settle is up to the trie and the runtime. The
  model takes it as input: every event comes with two numbers, the times at which its
  first and its second \<^verbatim>\<open>put\<close> settle. The later parts run in the order of these times,
  in delivery order where they are equal. Every order of resumption is the order of
  some such times, so a theorem for all times holds for every schedule.

  A trie is the list of the \<^verbatim>\<open>put\<close> calls made on it, in call order, with the key
  \<^verbatim>\<open>RLP.encode(Number(ethTx.transactionIndex))\<close> represented by the index; its root is
  \<open>trieRoot\<close> of that list.

  The console lines of \<^verbatim>\<open>toTypedEthTx\<close> and \<^verbatim>\<open>toEthTx\<close> are part of the results of
  these two functions; what \<^verbatim>\<open>transform\<close> returns does not depend on them, nor on its
  closing \<^verbatim>\<open>console.log\<close> of the store, so its model returns the store or the thrown
  value only.
\<close>

record blockState =
  bs_cumulativeGasUsed :: nat
  bs_blockLogsBloom :: bloom
  bs_transactionTrie :: "(nat \<times> bytes) list"
  bs_receiptTrie :: "(nat \<times> bytes) list"
  bs_store :: "storeItem list"

text \<open>The local variables of the arrow function that live across its \<^verbatim>\<open>await\<close>s.\<close>

record task =
  tk_typedEthTx :: typedTransaction
  tk_ethTx :: jsonRpcTx
  tk_ethLogs :: "jsonRpcLog list"
  tk_ethReceipt :: jsonRpcReceipt

type_synonym scheduled = "eventWithTransaction \<times> nat \<times> nat"

definition blockNumberOf :: "helpers \<Rightarrow> blockHeader \<Rightarrow> string" where
  "blockNumberOf H header = padString H (toHexString H (bh_blockNumber header)) 32"

definition blockHashOf :: "helpers \<Rightarrow> blockHeader \<Rightarrow> string" where
  "blockHashOf H header = padString H (bh_blockHash header) 32"

definition initialState :: blockState where
  "initialState =
     \<lparr>bs_cumulativeGasUsed = 0, bs_blockLogsBloom = 0, bs_transactionTrie = [],
      bs_receiptTrie = [], bs_store = []\<rparr>"

text \<open>
  \<^verbatim>\<open>receipt.events.map(toEthLog).filter((e) => e !== null)\<close>, then the second \<^verbatim>\<open>map\<close>
  that assigns \<^verbatim>\<open>logIndex\<close>. That \<^verbatim>\<open>map\<close> writes into the log objects of \<^verbatim>\<open>ethLogs\<close>
  themselves, so \<^verbatim>\<open>ethLogs\<close> and \<^verbatim>\<open>ethLogsIndexed\<close> hold the same indexed logs.
\<close>

definition ethLogsOf :: "helpers \<Rightarrow> jsonRpcTx \<Rightarrow> event list \<Rightarrow> string \<Rightarrow> string \<Rightarrow> jsonRpcLog list" where
  "ethLogsOf H ethTx evs blockNumber blockHash =
     map the (filter (\<lambda>e. e \<noteq> None) (map (\<lambda>e. toEthLog H ethTx e blockNumber blockHash) evs))"

definition indexLogs :: "jsonRpcLog list \<Rightarrow> jsonRpcLog list" where
  "indexLogs ethLogs =
     map (\<lambda>(log, index). log\<lparr>lg_logIndex := Some (toString index)\<rparr>)
       (zip ethLogs [0 ..< length ethLogs])"

definition task_start ::
  "deps \<Rightarrow> helpers \<Rightarrow> string \<Rightarrow> string \<Rightarrow> blockState \<Rightarrow> eventWithTransaction
    \<Rightarrow> blockState \<times> (thrown + task option)" where
  "task_start D H blockNumber blockHash st x =
     (case snd (toTypedEthTx D (ewt_transaction x)) of
        Inl e \<Rightarrow> (st, Inl e)
      | Inr None \<Rightarrow> (st, Inr None)
      | Inr (Some typedEthTx) \<Rightarrow>
          (case snd (toEthTx D H typedEthTx (ewt_receipt x) blockNumber blockHash) of
             Inl e \<Rightarrow> (st, Inl e)
           | Inr None \<Rightarrow> (st, Inr None)
           | Inr (Some ethTx) \<Rightarrow>
               let ethLogsIndexed =
                     indexLogs (ethLogsOf H ethTx (rc_events (ewt_receipt x)) blockNumber blockHash);
                   ethReceipt =
                     toEthReceipt H ethTx ethLogsIndexed (ewt_event x) (bs_cumulativeGasUsed st)
                       blockNumber blockHash
               in (st\<lparr>bs_transactionTrie :=
                        bs_transactionTrie st @ [(jr_transactionIndex ethTx, serialize D typedEthTx)]\<rparr>,
                   Inr (Some \<lparr>tk_typedEthTx = typedEthTx, tk_ethTx = ethTx,
                              tk_ethLogs = ethLogsIndexed, tk_ethReceipt = ethReceipt\<rparr>))))"

definition task_afterTransactionPut :: "deps \<Rightarrow> helpers \<Rightarrow> blockState \<Rightarrow> task \<Rightarrow> blockState" where
  "task_afterTransactionPut D H st k =
     (let encodedReceipt =
            encodeReceipt D (fromJsonRpcReceipt H (tk_ethReceipt k)) (tx_type (tk_typedEthTx k))
      in st\<lparr>bs_receiptTrie :=
              bs_receiptTrie st @ [(jr_transactionIndex (tk_ethTx k), encodedReceipt)]\<rparr>)"

definition taskItems :: "task \<Rightarrow> storeItem list" where
  "taskItems k =
     [Transactions (tk_ethTx k), Receipts (tk_ethReceipt k)] @ map Logs (tk_ethLogs k)"

definition task_afterReceiptPut :: "blockState \<Rightarrow> task \<Rightarrow> blockState" where
  "task_afterReceiptPut st k =
     (let receiptBloom = rp_logsBloom (tk_ethReceipt k)
      in st\<lparr>bs_blockLogsBloom := bs_blockLogsBloom st OR receiptBloom,
             bs_cumulativeGasUsed := bs_cumulativeGasUsed st + rp_gasUsed (tk_ethReceipt k),
             bs_store := bs_store st @ taskItems k\<rparr>)"

text \<open>
  The synchronous pass of \<^verbatim>\<open>map\<close>: the state goes from one call to the next, and every
  call leaves an outcome: thrown (its promise is rejected), \<^verbatim>\<open>null\<close> returned (the
  invocation is dropped), or a task waiting for its first \<^verbatim>\<open>put\<close>, with its two times.
\<close>

definition withTimes ::
  "nat \<times> nat \<Rightarrow> thrown + task option \<Rightarrow> thrown + (task \<times> nat \<times> nat) option" where
  "withTimes t r = (case r of Inl e \<Rightarrow> Inl e | Inr k \<Rightarrow> Inr (map_option (\<lambda>k. (k, t)) k))"

fun startAll ::
  "deps \<Rightarrow> helpers \<Rightarrow> string \<Rightarrow> string \<Rightarrow> blockState \<Rightarrow> scheduled list
    \<Rightarrow> blockState \<times> (thrown + (task \<times> nat \<times> nat) option) list" where
  "startAll D H blockNumber blockHash st [] = (st, [])"
| "startAll D H blockNumber blockHash st ((x, t) # xs) =
     (let (st1, r) = task_start D H blockNumber blockHash st x;
          (st2, rs) = startAll D H blockNumber blockHash st1 xs
      in (st2, withTimes t r # rs))"

text \<open>\<^verbatim>\<open>Promise.all\<close> rejects with the reason of the first rejected promise.\<close>

fun firstRejection :: "(thrown + 'a) list \<Rightarrow> thrown option" where
  "firstRejection [] = None"
| "firstRejection (Inl e # rs) = Some e"
| "firstRejection (Inr a # rs) = firstRejection rs"

fun pendingTasks :: "(thrown + 'a option) list \<Rightarrow> 'a list" where
  "pendingTasks [] = []"
| "pendingTasks (Inr (Some k) # rs) = k # pendingTasks rs"
| "pendingTasks (r # rs) = pendingTasks rs"

definition firstPutSettled :: "task \<times> nat \<times> nat \<Rightarrow> nat" where
  "firstPutSettled kt = fst (snd kt)"

definition secondPutSettled :: "task \<times> nat \<times> nat \<Rightarrow> nat" where
  "secondPutSettled kt = snd (snd kt)"

text \<open>
  The statement \<^verbatim>\<open>await Promise.all(...)\<close>: the value is the state of the local variables
  of \<^verbatim>\<open>transform\<close> after it, or what it throws. The parts after the first \<^verbatim>\<open>await\<close>
  write the receipt trie only, those after the second write the bloom, the gas total
  and the store only, so running all of the former before all of the latter gives the
  state of every interleaving with the same two orders. \<^verbatim>\<open>events ?? []\<close> is the empty
  list for absent events.
\<close>

definition eventsOrEmpty :: "scheduled list option \<Rightarrow> scheduled list" where
  "eventsOrEmpty events = (case events of None \<Rightarrow> [] | Some es \<Rightarrow> es)"

definition awaitAll ::
  "deps \<Rightarrow> helpers \<Rightarrow> blockHeader \<Rightarrow> scheduled list option \<Rightarrow> thrown + blockState" where
  "awaitAll D H header events =
     (let blockNumber = blockNumberOf H header;
          blockHash = blockHashOf H header;
          (st1, outcomes) =
            startAll D H blockNumber blockHash initialState (eventsOrEmpty events)
      in case firstRejection outcomes of
           Some e \<Rightarrow> Inl e
         | None \<Rightarrow>
             let tasks = pendingTasks outcomes;
                 st2 = foldl (task_afterTransactionPut D H) st1
                         (map fst (sort_key firstPutSettled tasks));
                 st3 = foldl task_afterReceiptPut st2
                         (map fst (sort_key secondPutSettled tasks))
             in Inr st3)"

definition transform ::
  "deps \<Rightarrow> helpers \<Rightarrow> blockHeader \<Rightarrow> scheduled list option \<Rightarrow> thrown + storeItem list" where
  "transform D H header events =
     (case awaitAll D H header events of
        Inl e \<Rightarrow> Inl e
      | Inr st \<Rightarrow>
          (case toEthHeader H header (bs_cumulativeGasUsed st) (bs_blockLogsBloom st)
                  (trieRoot D (bs_receiptTrie st)) (trieRoot D (bs_transactionTrie st))
                  (blockNumberOf H header) (blockHashOf H header) of
             Inl e \<Rightarrow> Inl e
           | Inr ethHeader \<Rightarrow> Inr (bs_store st @ [Headers ethHeader])))"

section \<open>Instances for the closed examples\<close>

subsection \<open>The helper modules, from the spec\<close>

text \<open>
  Modelled from the spec: \<^verbatim>\<open>toEthLog\<close> of \<^verbatim>\<open>types/log.ts\<close> (section 4.5). An event
  of the ignore list or with an unexpected number of keys gives no record, any other
  event gives a log without a \<^verbatim>\<open>logIndex\<close>. The spec names neither the list nor the
  key counts; here an event is filtered when it has no key or its first key is in
  \<open>ignoredKeys\<close>.
\<close>

definition ignoredKeys :: "felt list" where
  "ignoredKeys = [7]"

definition spec_toEthLog :: "jsonRpcTx \<Rightarrow> event \<Rightarrow> string \<Rightarrow> string \<Rightarrow> jsonRpcLog option" where
  "spec_toEthLog ethTx e blockNumber blockHash =
     (case ev_keys e of
        [] \<Rightarrow> None
      | key # ks \<Rightarrow>
          if key \<in> set ignoredKeys then None
          else Some \<lparr>lg_logIndex = None,
                     lg_transactionIndex = jr_transactionIndex ethTx,
                     lg_transactionHash = jr_hash ethTx,
                     lg_blockHash = blockHash,
                     lg_blockNumber = blockNumber,
                     lg_address = toString (ev_fromAddress e),
                     lg_topics = map toString (ev_keys e),
                     lg_data = concat (map toString (ev_data e))\<rparr>)"

text \<open>
  Modelled from the spec: \<^verbatim>\<open>toEthReceipt\<close> of \<^verbatim>\<open>types/receipt.ts\<close> (section 4.6). It
  takes \<^verbatim>\<open>gasUsed\<close> and the status from the execution outcome, sets
  \<^verbatim>\<open>cumulativeGasUsed\<close> to the running total it is given plus \<^verbatim>\<open>gasUsed\<close>, and builds
  the bloom from the address and the topics of every log. The outcome is read from the
  end of the data of the \<^verbatim>\<open>transaction_executed\<close> event (status, then gas used); one
  bit per item, at the length of the item, stands for the three bits of the hash.
\<close>

definition outcomeGasUsed :: "event \<Rightarrow> nat" where
  "outcomeGasUsed e = (case rev (ev_data e) of [] \<Rightarrow> 0 | g # rest \<Rightarrow> g)"

definition outcomeStatus :: "event \<Rightarrow> nat" where
  "outcomeStatus e = (case rev (ev_data e) of g # st # rest \<Rightarrow> st | _ \<Rightarrow> 0)"

definition bloomAdd :: "bloom \<Rightarrow> string \<Rightarrow> bloom" where
  "bloomAdd b item = b OR push_bit (length item) 1"

definition spec_logsBloom :: "jsonRpcLog list \<Rightarrow> bloom" where
  "spec_logsBloom logs = foldl bloomAdd 0 (concat (map (\<lambda>l. lg_address l # lg_topics l) logs))"

definition spec_toEthReceipt ::
  "jsonRpcTx \<Rightarrow> jsonRpcLog list \<Rightarrow> event \<Rightarrow> nat \<Rightarrow> string \<Rightarrow> string \<Rightarrow> jsonRpcReceipt" where
  "spec_toEthReceipt ethTx logs e cumulativeGasUsed blockNumber blockHash =
     \<lparr>rp_transactionHash = jr_hash ethTx,
      rp_transactionIndex = jr_transactionIndex ethTx,
      rp_blockHash = blockHash,
      rp_blockNumber = blockNumber,
      rp_from = jr_from ethTx,
      rp_to = jr_to ethTx,
      rp_cumulativeGasUsed = cumulativeGasUsed + outcomeGasUsed e,
      rp_gasUsed = outcomeGasUsed e,
      rp_logs = logs,
      rp_logsBloom = spec_logsBloom logs,
      rp_status = outcomeStatus e,
      rp_type = jr_type ethTx\<rparr>"

text \<open>
  Modelled from the spec: \<^verbatim>\<open>toEthHeader\<close> of \<^verbatim>\<open>types/header.ts\<close> (section 4.9), a
  pure mapping of the source header, the final gas total, the final bloom and the two
  roots. It fails only when a source field is absent; \<open>blockHeader\<close> has them all.
\<close>

definition spec_toEthHeader ::
  "blockHeader \<Rightarrow> nat \<Rightarrow> bloom \<Rightarrow> bytes \<Rightarrow> bytes \<Rightarrow> string \<Rightarrow> string \<Rightarrow> thrown + jsonRpcBlock" where
  "spec_toEthHeader header gasUsed logsBloom receiptRoot transactionRoot blockNumber blockHash =
     Inr \<lparr>hd_number = blockNumber, hd_hash = blockHash,
          hd_parentHash = bh_parentBlockHash header, hd_timestamp = bh_timestamp header,
          hd_gasUsed = gasUsed, hd_logsBloom = logsBloom, hd_receiptsRoot = receiptRoot,
          hd_transactionsRoot = transactionRoot\<rparr>"

definition spec_fromJsonRpcReceipt :: "jsonRpcReceipt \<Rightarrow> txReceipt" where
  "spec_fromJsonRpcReceipt rcpt =
     \<lparr>tr_status = rp_status rcpt, tr_cumulativeBlockGasUsed = rp_cumulativeGasUsed rcpt,
      tr_bitvector = rp_logsBloom rcpt, tr_logs = rp_logs rcpt\<rparr>"

text \<open>
  The hex helpers are outside the spec's scope. The examples pass strings that have
  their full width already, which padding leaves as they are.
\<close>

definition spec_helpers :: helpers where
  "spec_helpers =
     \<lparr>padString = (\<lambda>s n. s),
      toHexString = (\<lambda>s. s),
      padBytes = (\<lambda>b n. map (\<lambda>w. digit (unat w mod 10)) b),
      toEthLog = spec_toEthLog,
      toEthReceipt = spec_toEthReceipt,
      fromJsonRpcReceipt = spec_fromJsonRpcReceipt,
      toEthHeader = spec_toEthHeader\<rparr>"

subsection \<open>A small stand-in for the libraries\<close>

text \<open>
  The examples need some library to run against. This one reads the type from the
  first payload byte (1, 2 and 3 are the typed variants, 255 makes the parser throw a
  string, an empty payload is rejected with an \<^verbatim>\<open>Error\<close>, anything else is a legacy
  transaction). Its constructors store the fields they are given after the check of
  \<open>v\<close> that the constructors of the transaction library make: a legacy transaction
  needs \<open>v\<close> to be 27, 28 or at least 37, a typed one needs the parity 0 or 1. Its
  \<^verbatim>\<open>getSenderAddress\<close> throws, as the library's does, when no sender can be recovered,
  which here is the case for an unsigned transaction and for \<open>r = 0\<close>.
\<close>

fun example_bigIntToBytes :: "nat \<Rightarrow> bytes" where
  "example_bigIntToBytes n =
     (if n < 256 then [of_nat n] else example_bigIntToBytes (n div 256) @ [of_nat (n mod 256)])"

declare example_bigIntToBytes.simps [simp del]

definition example_fromSerializedData :: "bytes \<Rightarrow> thrown + typedTransaction" where
  "example_fromSerializedData bs =
     (case bs of
        [] \<Rightarrow> Inl (Error ''Invalid serialized tx input. Must be array'')
      | b # payload \<Rightarrow>
          if b = 255 then Inl (NonError ''thrown string'')
          else Inr \<lparr>tx_type = (if b = 1 then AccessListEIP2930 else if b = 2 then FeeMarketEIP1559
                               else if b = 3 then BlobEIP4844 else Legacy),
                    tx_chainId = (if b = 1 \<or> b = 2 \<or> b = 3 then Some 1 else None),
                    tx_nonce = length payload,
                    tx_gasPrice = (if b = 2 \<or> b = 3 then None else Some 1),
                    tx_maxPriorityFeePerGas = (if b = 2 \<or> b = 3 then Some 1 else None),
                    tx_maxFeePerGas = (if b = 2 \<or> b = 3 then Some 2 else None),
                    tx_gasLimit = 21000,
                    tx_to = None,
                    tx_value = 0,
                    tx_data = payload,
                    tx_accessList = (if b = 1 \<or> b = 2 \<or> b = 3 then Some [] else None),
                    tx_v = None, tx_r = None, tx_s = None\<rparr>)"

definition example_construct :: "txType \<Rightarrow> txData \<Rightarrow> thrown + typedTransaction" where
  "example_construct ty td =
     Inr \<lparr>tx_type = ty, tx_chainId = td_chainId td, tx_nonce = td_nonce td,
          tx_gasPrice = td_gasPrice td, tx_maxPriorityFeePerGas = td_maxPriorityFeePerGas td,
          tx_maxFeePerGas = td_maxFeePerGas td, tx_gasLimit = td_gasLimit td, tx_to = td_to td,
          tx_value = td_value td, tx_data = td_data td, tx_accessList = td_accessList td,
          tx_v = Some (td_v td), tx_r = Some (td_r td), tx_s = Some (td_s td)\<rparr>"

definition example_legacy :: "txData \<Rightarrow> thrown + typedTransaction" where
  "example_legacy td =
     (if td_v td < 37 \<and> td_v td \<noteq> 27 \<and> td_v td \<noteq> 28 then
        Inl (Error (''Legacy txs need either v = 27/28 or v >= 37 (EIP-155 replay protection), got v = ''
               @ toString (td_v td)))
      else example_construct Legacy td)"

definition example_typed :: "txType \<Rightarrow> txData \<Rightarrow> thrown + typedTransaction" where
  "example_typed ty td =
     (if td_v td \<noteq> 0 \<and> td_v td \<noteq> 1 then
        Inl (Error ''The y-parity of the transaction should either be 0 or 1'')
      else example_construct ty td)"

definition example_getSenderAddress :: "typedTransaction \<Rightarrow> thrown + string" where
  "example_getSenderAddress tx =
     (if tx_r tx = None \<or> tx_s tx = None \<or> tx_v tx = None \<or> tx_r tx = Some 0 then
        Inl (Error ''Invalid Signature'')
      else Inr ''0xsender'')"

definition example_toJSON :: "typedTransaction \<Rightarrow> jsonTx" where
  "example_toJSON tx =
     \<lparr>js_nonce = Some (toString (tx_nonce tx)),
      js_gasPrice = map_option toString (tx_gasPrice tx),
      js_maxPriorityFeePerGas = map_option toString (tx_maxPriorityFeePerGas tx),
      js_maxFeePerGas = map_option toString (tx_maxFeePerGas tx),
      js_gasLimit = Some (toString (tx_gasLimit tx)),
      js_value = Some (toString (tx_value tx)),
      js_data = Some (map (\<lambda>w. digit (unat w mod 10)) (tx_data tx)),
      js_accessList = tx_accessList tx,
      js_chainId = map_option toString (tx_chainId tx),
      js_v = map_option toString (tx_v tx),
      js_r = map_option toString (tx_r tx),
      js_s = map_option toString (tx_s tx),
      js_maxFeePerBlobGas = None,
      js_blobVersionedHashes = None\<rparr>"

definition example_deps :: deps where
  "example_deps =
     \<lparr>bigIntToBytes = example_bigIntToBytes,
      intToHex = (\<lambda>n. ''0x'' @ toString n),
      fromSerializedData = example_fromSerializedData,
      fromTxData = Inr,
      LegacyTransaction_fromTxData = example_legacy,
      AccessListEIP2930Transaction_fromTxData = example_typed AccessListEIP2930,
      FeeMarketEIP1559Transaction_fromTxData = example_typed FeeMarketEIP1559,
      toJSON = (\<lambda>tx. Inr (example_toJSON tx)),
      getSenderAddress = example_getSenderAddress,
      txHash = (\<lambda>tx. Inr (tx_data tx)),
      serialize = tx_data,
      encodeReceipt = (\<lambda>rcpt ty. [of_nat (tr_cumulativeBlockGasUsed rcpt)]),
      trieRoot = (\<lambda>puts. concat (map snd puts))\<rparr>"

subsection \<open>Example inputs\<close>

text \<open>
  \<open>invocation cd sg idx evs gas\<close> is an invocation with calldata \<open>cd\<close>, signature
  \<open>sg\<close>, transaction index \<open>idx\<close>, receipt events \<open>evs\<close>, and a
  \<^verbatim>\<open>transaction_executed\<close> event that reports success and \<open>gas\<close> gas used.
\<close>

definition invocation ::
  "felt list option \<Rightarrow> felt list \<Rightarrow> nat optional \<Rightarrow> event list \<Rightarrow> nat \<Rightarrow> eventWithTransaction" where
  "invocation cd sg idx evs gas =
     \<lparr>ewt_transaction =
        \<lparr>st_invokeV1 = map_option (\<lambda>c. \<lparr>iv_calldata = c\<rparr>) cd,
         st_meta = \<lparr>tm_signature = sg\<rparr>\<rparr>,
      ewt_receipt = \<lparr>rc_transactionIndex = idx, rc_events = evs\<rparr>,
      ewt_event = \<lparr>ev_fromAddress = 1, ev_keys = [9], ev_data = [1, gas]\<rparr>\<rparr>"

definition legacyCalldata :: "felt list" where
  "legacyCalldata = [1, 0, 0, 0, 2, 2, 200, 5]"

definition goodSignature :: "felt list" where
  "goodSignature = [11, 0, 13, 0, 37]"

definition exampleHeader :: blockHeader where
  "exampleHeader =
     \<lparr>bh_blockNumber = ''0x10'', bh_blockHash = ''0xaa'', bh_parentBlockHash = ''0xa9'',
      bh_timestamp = ''0''\<rparr>"

definition transferEvent :: event where
  "transferEvent = \<lparr>ev_fromAddress = 42, ev_keys = [3, 4], ev_data = [5]\<rparr>"

definition ignoredEvent :: event where
  "ignoredEvent = \<lparr>ev_fromAddress = 42, ev_keys = [7], ev_data = []\<rparr>"

definition goodInvocation :: "nat \<Rightarrow> event list \<Rightarrow> nat \<Rightarrow> eventWithTransaction" where
  "goodInvocation idx evs gas = invocation (Some legacyCalldata) goodSignature (Defined idx) evs gas"

definition multicallInvocation :: eventWithTransaction where
  "multicallInvocation = invocation (Some [2, 0, 0, 0, 2, 2, 200, 5]) goodSignature (Defined 0) [] 70"

definition emptyCalldataInvocation :: eventWithTransaction where
  "emptyCalldataInvocation = invocation (Some []) goodSignature (Defined 1) [] 70"

definition shortCalldataInvocation :: eventWithTransaction where
  "shortCalldataInvocation = invocation (Some [1, 0, 0]) goodSignature (Defined 1) [] 70"

definition shortSignatureInvocation :: eventWithTransaction where
  "shortSignatureInvocation = invocation (Some legacyCalldata) [11, 0, 13, 0] (Defined 1) [] 70"

definition wideSignatureInvocation :: eventWithTransaction where
  "wideSignatureInvocation = invocation (Some legacyCalldata) [11, 1, 13, 2, 37] (Defined 1) [] 70"

definition unsignedLegacy :: typedTransaction where
  "unsignedLegacy =
     \<lparr>tx_type = Legacy, tx_chainId = None, tx_nonce = 1, tx_gasPrice = Some 1,
      tx_maxPriorityFeePerGas = None, tx_maxFeePerGas = None, tx_gasLimit = 21000,
      tx_to = None, tx_value = 0, tx_data = [5], tx_accessList = None,
      tx_v = None, tx_r = None, tx_s = None\<rparr>"

definition unsignedAccessList :: typedTransaction where
  "unsignedAccessList =
     unsignedLegacy\<lparr>tx_type := AccessListEIP2930, tx_chainId := Some 1, tx_accessList := Some []\<rparr>"

definition unsignedFeeMarket :: typedTransaction where
  "unsignedFeeMarket =
     unsignedLegacy\<lparr>tx_type := FeeMarketEIP1559, tx_chainId := Some 1, tx_gasPrice := None,
       tx_maxPriorityFeePerGas := Some 1, tx_maxFeePerGas := Some 2, tx_accessList := Some []\<rparr>"

definition lowVInvocation :: eventWithTransaction where
  "lowVInvocation = invocation (Some legacyCalldata) [11, 0, 13, 0, 27] (Defined 1) [] 70"

definition signedLegacy :: typedTransaction where
  "signedLegacy = unsignedLegacy\<lparr>tx_v := Some 37, tx_r := Some 11, tx_s := Some 13\<rparr>"

definition receiptWithoutIndex :: transactionReceipt where
  "receiptWithoutIndex = \<lparr>rc_transactionIndex = Undefined, rc_events = []\<rparr>"

definition receiptWithNullIndex :: transactionReceipt where
  "receiptWithNullIndex = \<lparr>rc_transactionIndex = Null, rc_events = []\<rparr>"



definition v35Invocation :: eventWithTransaction where
  "v35Invocation = invocation (Some legacyCalldata) [11, 0, 13, 0, 35] (Defined 1) [] 70"

definition throwingInvocation :: eventWithTransaction where
  "throwingInvocation =
     invocation (Some [1, 0, 0, 0, 2, 2, 255, 5]) goodSignature (Defined 1) [] 70"

definition exampleBlock :: "scheduled list" where
  "exampleBlock =
     [(goodInvocation 1 [transferEvent, ignoredEvent, transferEvent] 100, 5, 7),
      (multicallInvocation, 0, 0),
      (goodInvocation 0 [transferEvent] 50, 3, 4)]"

definition exampleTx :: "nat \<Rightarrow> jsonRpcTx" where
  "exampleTx idx =
     \<lparr>jr_blockHash = ''0xaa'', jr_blockNumber = ''0x10'', jr_from = ''0xsender'',
      jr_gas = Some ''21000'', jr_gasPrice = Some ''1'', jr_maxFeePerGas = None,
      jr_maxPriorityFeePerGas = None, jr_type = ''0x0'', jr_accessList = None,
      jr_chainId = None, jr_hash = ''5'', jr_input = Some ''5'', jr_nonce = Some ''1'',
      jr_to = None, jr_transactionIndex = idx, jr_value = Some ''0'', jr_v = ''37'',
      jr_r = ''11'', jr_s = ''13'', jr_maxFeePerBlobGas = None,
      jr_blobVersionedHashes = None\<rparr>"

definition exampleLog :: "nat \<Rightarrow> string \<Rightarrow> jsonRpcLog" where
  "exampleLog idx logIndex =
     \<lparr>lg_logIndex = Some logIndex, lg_transactionIndex = idx, lg_transactionHash = ''5'',
      lg_blockHash = ''0xaa'', lg_blockNumber = ''0x10'', lg_address = ''42'',
      lg_topics = [''3'', ''4''], lg_data = ''5''\<rparr>"

definition exampleReceipt :: "nat \<Rightarrow> nat \<Rightarrow> jsonRpcLog list \<Rightarrow> jsonRpcReceipt" where
  "exampleReceipt idx gas logs =
     \<lparr>rp_transactionHash = ''5'', rp_transactionIndex = idx, rp_blockHash = ''0xaa'',
      rp_blockNumber = ''0x10'', rp_from = ''0xsender'', rp_to = None,
      rp_cumulativeGasUsed = gas, rp_gasUsed = gas, rp_logs = logs,
      rp_logsBloom = (if logs = [] then 0 else 6), rp_status = 1, rp_type = ''0x0''\<rparr>"

definition exampleTask :: "nat \<Rightarrow> nat \<Rightarrow> jsonRpcLog list \<Rightarrow> task" where
  "exampleTask idx gas logs =
     \<lparr>tk_typedEthTx = signedLegacy, tk_ethTx = exampleTx idx, tk_ethLogs = logs,
      tk_ethReceipt = exampleReceipt idx gas logs\<rparr>"

definition exampleStore :: "storeItem list" where
  "exampleStore =
     [Transactions (exampleTx 0),
      Receipts (exampleReceipt 0 50 [exampleLog 0 ''0'']),
      Logs (exampleLog 0 ''0''),
      Transactions (exampleTx 1),
      Receipts (exampleReceipt 1 100 [exampleLog 1 ''0'', exampleLog 1 ''1'']),
      Logs (exampleLog 1 ''0''),
      Logs (exampleLog 1 ''1''),
      Headers \<lparr>hd_number = ''0x10'', hd_hash = ''0xaa'', hd_parentHash = ''0xa9'',
        hd_timestamp = ''0'', hd_gasUsed = 150, hd_logsBloom = 6,
        hd_receiptsRoot = [50, 100], hd_transactionsRoot = [5, 5]\<rparr>]"

definition exampleState :: blockState where
  "exampleState =
     \<lparr>bs_cumulativeGasUsed = 150, bs_blockLogsBloom = 6,
      bs_transactionTrie = [(1, [5]), (0, [5])],
      bs_receiptTrie = [(0, [50]), (1, [100])],
      bs_store = butlast exampleStore\<rparr>"

definition fifoBlock :: "scheduled list" where
  "fifoBlock =
     [(goodInvocation 1 [transferEvent, ignoredEvent, transferEvent] 100, 0, 0),
      (multicallInvocation, 0, 0),
      (goodInvocation 0 [transferEvent] 50, 0, 0)]"

definition outOfOrderBlock :: "scheduled list" where
  "outOfOrderBlock = [(goodInvocation 1 [] 100, 0, 0), (goodInvocation 0 [] 50, 0, 0)]"

definition inOrderBlock :: "scheduled list" where
  "inOrderBlock = [(goodInvocation 0 [] 50, 0, 0), (goodInvocation 1 [] 100, 0, 0)]"

section \<open>Notions used in the statements\<close>

text \<open>
  \<open>decoded\<close> is what the first part of the task of one event returns on the initial
  state; \<open>survivors\<close> are the events of the block that come out of it with a task, in
  delivery order, each with its task.
\<close>

definition decoded ::
  "deps \<Rightarrow> helpers \<Rightarrow> blockHeader \<Rightarrow> eventWithTransaction \<Rightarrow> thrown + task option" where
  "decoded D H header x =
     snd (task_start D H (blockNumberOf H header) (blockHashOf H header) initialState x)"

definition survivorOf ::
  "deps \<Rightarrow> helpers \<Rightarrow> blockHeader \<Rightarrow> scheduled \<Rightarrow> (eventWithTransaction \<times> task) list" where
  "survivorOf D H header xt =
     (case decoded D H header (fst xt) of Inr (Some k) \<Rightarrow> [(fst xt, k)] | _ \<Rightarrow> [])"

definition survivors ::
  "deps \<Rightarrow> helpers \<Rightarrow> blockHeader \<Rightarrow> scheduled list option \<Rightarrow> (eventWithTransaction \<times> task) list" where
  "survivors D H header events = concat (map (survivorOf D H header) (eventsOrEmpty events))"

definition outcomes ::
  "deps \<Rightarrow> helpers \<Rightarrow> blockHeader \<Rightarrow> scheduled list
    \<Rightarrow> (thrown + (task \<times> nat \<times> nat) option) list" where
  "outcomes D H header es = map (\<lambda>xt. withTimes (snd xt) (decoded D H header (fst xt))) es"

definition txPut :: "deps \<Rightarrow> task \<Rightarrow> nat \<times> bytes" where
  "txPut D k = (jr_transactionIndex (tk_ethTx k), serialize D (tk_typedEthTx k))"

definition receiptPut :: "deps \<Rightarrow> helpers \<Rightarrow> task \<Rightarrow> nat \<times> bytes" where
  "receiptPut D H k =
     (jr_transactionIndex (tk_ethTx k),
      encodeReceipt D (fromJsonRpcReceipt H (tk_ethReceipt k)) (tx_type (tk_typedEthTx k)))"

text \<open>The OR-reduction of a list of blooms.\<close>

definition orAll :: "bloom list \<Rightarrow> bloom" where
  "orAll bs = foldr (OR) bs 0"

definition receiptBloom :: "task \<Rightarrow> bloom" where
  "receiptBloom k = rp_logsBloom (tk_ethReceipt k)"

text \<open>
  The state after \<^verbatim>\<open>await Promise.all(...)\<close> in closed form, from the waiting tasks in
  delivery order.
\<close>

definition finalState :: "deps \<Rightarrow> helpers \<Rightarrow> (task \<times> nat \<times> nat) list \<Rightarrow> blockState" where
  "finalState D H tasks =
     \<lparr>bs_cumulativeGasUsed =
        sum_list (map (rp_gasUsed \<circ> tk_ethReceipt \<circ> fst) (sort_key secondPutSettled tasks)),
      bs_blockLogsBloom = orAll (map (receiptBloom \<circ> fst) (sort_key secondPutSettled tasks)),
      bs_transactionTrie = map (txPut D \<circ> fst) tasks,
      bs_receiptTrie = map (receiptPut D H \<circ> fst) (sort_key firstPutSettled tasks),
      bs_store = concat (map (taskItems \<circ> fst) (sort_key secondPutSettled tasks))\<rparr>"

text \<open>The number of events of a receipt that \<^verbatim>\<open>toEthLog\<close> does not filter out.\<close>

definition nonFilteredEvents ::
  "helpers \<Rightarrow> blockHeader \<Rightarrow> eventWithTransaction \<times> task \<Rightarrow> nat" where
  "nonFilteredEvents H header xk =
     length (filter
       (\<lambda>e. toEthLog H (tk_ethTx (snd xk)) e (blockNumberOf H header) (blockHashOf H header) \<noteq> None)
       (rc_events (ewt_receipt (fst xk))))"

text \<open>
  The pairs of \<^verbatim>\<open>transactionIndex\<close> and \<^verbatim>\<open>cumulativeGasUsed\<close> of the receipt items of a
  store, in store order.
\<close>

fun receiptGas :: "storeItem list \<Rightarrow> (nat \<times> nat) list" where
  "receiptGas [] = []"
| "receiptGas (Receipts rcpt # items) =
     (rp_transactionIndex rcpt, rp_cumulativeGasUsed rcpt) # receiptGas items"
| "receiptGas (item # items) = receiptGas items"

section \<open>Properties\<close>

subsection \<open>The three parts of a task\<close>

lemma task_start_snd_gas:
  "bs_cumulativeGasUsed st = bs_cumulativeGasUsed st' \<Longrightarrow>
   snd (task_start D H bn bh st x) = snd (task_start D H bn bh st' x)"
  by (simp add: task_start_def Let_def split: sum.splits option.splits)

lemma task_start_fst:
  "fst (task_start D H bn bh st x) =
     (case snd (task_start D H bn bh st x) of
        Inr (Some k) \<Rightarrow> st\<lparr>bs_transactionTrie := bs_transactionTrie st @ [txPut D k]\<rparr>
      | _ \<Rightarrow> st)"
  by (simp add: task_start_def Let_def txPut_def split: sum.splits option.splits)

lemma task_start_gas:
  "bs_cumulativeGasUsed (fst (task_start D H bn bh st x)) = bs_cumulativeGasUsed st"
  by (simp add: task_start_fst split: sum.splits option.splits)

lemma startAll_snd:
  "bs_cumulativeGasUsed st = 0 \<Longrightarrow>
   snd (startAll D H (blockNumberOf H header) (blockHashOf H header) st es) =
     outcomes D H header es"
proof (induction es arbitrary: st)
  case Nil
  show ?case by (simp add: outcomes_def)
next
  case (Cons a es)
  obtain x t where a: "a = (x, t)" by (cases a)
  let ?bn = "blockNumberOf H header" and ?bh = "blockHashOf H header"
  have g: "bs_cumulativeGasUsed (fst (task_start D H ?bn ?bh st x)) = 0"
    using Cons.prems by (simp add: task_start_gas)
  have s: "snd (task_start D H ?bn ?bh st x) = decoded D H header x"
    unfolding decoded_def
    by (rule task_start_snd_gas) (simp add: Cons.prems initialState_def)
  show ?case
    using Cons.IH [OF g] s by (simp add: a split_beta Let_def outcomes_def)
qed

lemma pendingTasks_append:
  "pendingTasks (rs @ rs') = pendingTasks rs @ pendingTasks rs'"
  by (induction rs rule: pendingTasks.induct) simp_all

lemma firstRejection_append:
  "firstRejection (rs @ rs') =
     (case firstRejection rs of Some e \<Rightarrow> Some e | None \<Rightarrow> firstRejection rs')"
  by (induction rs rule: firstRejection.induct) simp_all

lemma startAll_fst:
  "fst (startAll D H bn bh st es) =
     st\<lparr>bs_transactionTrie :=
          bs_transactionTrie st @ map (txPut D \<circ> fst) (pendingTasks (snd (startAll D H bn bh st es)))\<rparr>"
proof (induction es arbitrary: st)
  case Nil
  show ?case by simp
next
  case (Cons a es)
  obtain x t where a: "a = (x, t)" by (cases a)
  show ?case
    by (simp add: a split_beta Let_def Cons.IH task_start_fst [of D H bn bh st x]
        withTimes_def split: sum.splits option.splits)
qed

lemma foldl_afterTransactionPut:
  "foldl (task_afterTransactionPut D H) st ks =
     st\<lparr>bs_receiptTrie := bs_receiptTrie st @ map (receiptPut D H) ks\<rparr>"
  by (induction ks arbitrary: st) (simp_all add: task_afterTransactionPut_def receiptPut_def)

lemma foldl_afterReceiptPut:
  "foldl task_afterReceiptPut st ks =
     st\<lparr>bs_blockLogsBloom := bs_blockLogsBloom st OR orAll (map receiptBloom ks),
        bs_cumulativeGasUsed :=
          bs_cumulativeGasUsed st + sum_list (map (rp_gasUsed \<circ> tk_ethReceipt) ks),
        bs_store := bs_store st @ concat (map taskItems ks)\<rparr>"
  by (induction ks arbitrary: st)
    (simp_all add: task_afterReceiptPut_def orAll_def receiptBloom_def ac_simps)

text \<open>The two later parts write different fields, so they commute.\<close>

lemma later_parts_commute:
  "task_afterReceiptPut (task_afterTransactionPut D H st k) k' =
   task_afterTransactionPut D H (task_afterReceiptPut st k') k"
  by (simp add: task_afterReceiptPut_def task_afterTransactionPut_def)

text \<open>
  The times lose no schedule: whatever order the tasks are to resume in, there are times
  under which the stable sort by time puts them in this order.
\<close>

lemma inj_on_snd_zip:
  assumes "distinct ys"
  shows "inj_on snd (set (zip xs ys))"
proof (rule inj_onI)
  fix p q
  assume p: "p \<in> set (zip xs ys)" and q: "q \<in> set (zip xs ys)" and e: "snd p = snd q"
  from p obtain i where i: "i < length xs" "i < length ys" "p = (xs ! i, ys ! i)"
    by (auto simp: set_zip)
  from q obtain j where j: "j < length xs" "j < length ys" "q = (xs ! j, ys ! j)"
    by (auto simp: set_zip)
  from e i j assms have "i = j"
    by (simp add: nth_eq_iff_index_eq)
  with i j show "p = q" by simp
qed

lemma every_order_has_times:
  assumes "mset ks' = mset ks"
  shows "\<exists>ts :: nat list. length ts = length ks \<and> map fst (sort_key snd (zip ks ts)) = ks'"
proof -
  let ?n = "length ks'"
  have "length ks' = length [0 ..< ?n]" by simp
  from ex_mset_zip_left [OF this, of ks] assms obtain ts :: "nat list" where
    l: "length ts = length ks" and m: "mset (zip ks ts) = mset (zip ks' [0 ..< ?n])"
    by auto
  have "set (zip ks ts) = set (zip ks' [0 ..< ?n])"
    using m by (rule mset_eq_setD)
  then have inj: "inj_on snd (set (zip ks ts))"
    by (simp add: inj_on_snd_zip)
  have "sorted (map snd (zip ks' [0 ..< ?n]))"
    by simp
  with m inj have "sort_key snd (zip ks ts) = zip ks' [0 ..< ?n]"
    by (intro sort_key_inj_key_eq) simp_all
  then have "map fst (sort_key snd (zip ks ts)) = ks'"
    by simp
  with l show ?thesis by blast
qed

subsection \<open>The state after all tasks\<close>

lemma awaitAll_closed_form:
  "awaitAll D H header events =
     (case firstRejection (outcomes D H header (eventsOrEmpty events)) of
        Some e \<Rightarrow> Inl e
      | None \<Rightarrow> Inr (finalState D H (pendingTasks (outcomes D H header (eventsOrEmpty events)))))"
proof -
  let ?bn = "blockNumberOf H header" and ?bh = "blockHashOf H header"
  let ?es = "eventsOrEmpty events"
  have s: "snd (startAll D H ?bn ?bh initialState ?es) = outcomes D H header ?es"
    by (rule startAll_snd) (simp add: initialState_def)
  have f: "fst (startAll D H ?bn ?bh initialState ?es) =
      \<lparr>bs_cumulativeGasUsed = 0, bs_blockLogsBloom = 0,
       bs_transactionTrie = map (txPut D \<circ> fst) (pendingTasks (outcomes D H header ?es)),
       bs_receiptTrie = [], bs_store = []\<rparr>"
    using startAll_fst [of D H ?bn ?bh initialState ?es] s by (simp add: initialState_def)
  show ?thesis
    unfolding awaitAll_def Let_def split_beta s f
    by (simp add: foldl_afterTransactionPut foldl_afterReceiptPut finalState_def comp_def
        split: option.splits)
qed

lemma transform_closed_form:
  "transform D H header events = Inr items \<Longrightarrow>
   \<exists>tasks ethHeader.
     firstRejection (outcomes D H header (eventsOrEmpty events)) = None \<and>
     tasks = pendingTasks (outcomes D H header (eventsOrEmpty events)) \<and>
     items = concat (map (taskItems \<circ> fst) (sort_key secondPutSettled tasks)) @ [Headers ethHeader]"
  by (auto simp: transform_def awaitAll_closed_form finalState_def
      split: sum.splits option.splits)

lemma pendingTasks_outcomes:
  "map fst (pendingTasks (outcomes D H header es)) =
   map snd (concat (map (survivorOf D H header) es))"
proof (induction es)
  case Nil
  show ?case by (simp add: outcomes_def)
next
  case (Cons a es)
  then show ?case
    by (cases "decoded D H header (fst a)")
      (auto simp: outcomes_def survivorOf_def withTimes_def split: option.splits)
qed

lemma completed_mset:
  "mset (map fst (sort_key f (pendingTasks (outcomes D H header (eventsOrEmpty events))))) =
   mset (map snd (survivors D H header events))"
proof -
  have "mset (map fst (sort_key f (pendingTasks (outcomes D H header (eventsOrEmpty events))))) =
        mset (map fst (pendingTasks (outcomes D H header (eventsOrEmpty events))))"
    by simp
  then show ?thesis
    by (simp only: pendingTasks_outcomes survivors_def)
qed

lemma decoded_dropped:
  "snd (toTypedEthTx D (ewt_transaction x)) = Inr None \<Longrightarrow> decoded D H header x = Inr None"
  by (simp add: decoded_def task_start_def)

lemma decoded_thrown:
  "snd (toTypedEthTx D (ewt_transaction x)) = Inl e \<Longrightarrow> decoded D H header x = Inl e"
  by (simp add: decoded_def task_start_def)

lemma outcomes_append:
  "outcomes D H header (es @ es') = outcomes D H header es @ outcomes D H header es'"
  by (simp add: outcomes_def)

lemma outcomes_Cons:
  "outcomes D H header (xt # es) =
     withTimes (snd xt) (decoded D H header (fst xt)) # outcomes D H header es"
  by (simp add: outcomes_def)

lemma dropped_awaitAll:
  assumes "decoded D H header x = Inr None"
  shows "awaitAll D H header (Some (pre @ [(x, t)] @ post)) = awaitAll D H header (Some (pre @ post))"
proof -
  have o: "withTimes t (decoded D H header x) = Inr None"
    using assms by (simp add: withTimes_def)
  show ?thesis
    by (simp add: awaitAll_closed_form eventsOrEmpty_def outcomes_append outcomes_Cons o
        firstRejection_append pendingTasks_append split: option.splits)
qed

lemma dropped_transform:
  assumes "decoded D H header x = Inr None"
  shows "transform D H header (Some (pre @ [(x, t)] @ post)) = transform D H header (Some (pre @ post))"
  by (simp only: transform_def dropped_awaitAll [OF assms])

lemma thrown_awaitAll:
  assumes "decoded D H header x = Inl e"
  shows "isl (awaitAll D H header (Some (pre @ [(x, t)] @ post)))"
proof -
  have o: "withTimes t (decoded D H header x) = Inl e"
    using assms by (simp add: withTimes_def)
  show ?thesis
    by (simp add: awaitAll_closed_form eventsOrEmpty_def outcomes_append outcomes_Cons o
        firstRejection_append split: option.splits)
qed

lemma thrown_transform:
  assumes "decoded D H header x = Inl e"
  shows "isl (transform D H header (Some (pre @ [(x, t)] @ post)))"
  using thrown_awaitAll [OF assms, of pre t post]
  by (auto simp: transform_def split: sum.splits)

subsection \<open>Invocations that are dropped\<close>

text \<open>
  Claim C3. An invocation whose first calldata element is not 1 is dropped as a
  multi-call: \<^verbatim>\<open>toTypedEthTx\<close> reports the call array length and returns \<^verbatim>\<open>null\<close>, and
  the block comes out as it does without that invocation, wherever it stands in the
  delivery and whatever its times are. The state after all tasks is the same, so no
  entry goes into either trie and nothing is added to the block bloom or to the gas
  total; the store is the same, so no transaction, receipt or log item of it is
  emitted.
\<close>

theorem multicall_dropped:
  assumes "st_invokeV1 (ewt_transaction x) = Some invoke"
    and "iv_calldata invoke = callArrayLen # rest"
    and "callArrayLen \<noteq> 1"
  shows "toTypedEthTx D (ewt_transaction x) =
           ([''Invalid call array length '' @ toString callArrayLen], Inr None)
       \<and> awaitAll D H header (Some (pre @ [(x, t)] @ post)) =
           awaitAll D H header (Some (pre @ post))
       \<and> transform D H header (Some (pre @ [(x, t)] @ post)) =
           transform D H header (Some (pre @ post))"
proof -
  have d: "toTypedEthTx D (ewt_transaction x) =
           ([''Invalid call array length '' @ toString callArrayLen], Inr None)"
    using assms by (simp add: toTypedEthTx_def)
  then have "decoded D H header x = Inr None"
    by (simp add: decoded_dropped)
  then show ?thesis
    using d dropped_awaitAll dropped_transform by blast
qed

theorem multicall_dropped_witness:
  "toTypedEthTx example_deps (ewt_transaction multicallInvocation) =
     ([''Invalid call array length 2''], Inr None)
   \<and> awaitAll example_deps spec_helpers exampleHeader
       (Some ([(goodInvocation 0 [] 50, 0, 0)] @ [(multicallInvocation, 0, 0)] @ [])) =
     awaitAll example_deps spec_helpers exampleHeader (Some ([(goodInvocation 0 [] 50, 0, 0)] @ []))
   \<and> transform example_deps spec_helpers exampleHeader
       (Some ([(goodInvocation 0 [] 50, 0, 0)] @ [(multicallInvocation, 0, 0)] @ [])) =
     transform example_deps spec_helpers exampleHeader (Some ([(goodInvocation 0 [] 50, 0, 0)] @ []))"
proof -
  have h1: "st_invokeV1 (ewt_transaction multicallInvocation) =
              Some \<lparr>iv_calldata = [2, 0, 0, 0, 2, 2, 200, 5]\<rparr>"
    by (simp add: multicallInvocation_def invocation_def)
  have h2: "iv_calldata \<lparr>iv_calldata = [2, 0, 0, 0, 2, 2, 200, 5]\<rparr> = 2 # [0, 0, 0, 2, 2, 200, 5]"
    by simp
  have h3: "(2::nat) \<noteq> 1" by simp
  have s: "toString 2 = ''2''" by (simp add: toString.simps digit_def)
  show ?thesis
    using multicall_dropped [OF h1 h2 h3, of example_deps spec_helpers exampleHeader
        "[(goodInvocation 0 [] 50, 0, 0)]" "(0, 0)" "[]"]
    by (simp only: s append.simps)
qed

subsection \<open>Missing calldata\<close>

lemmas example_tx_defs =
  toTypedEthTx_def tryBody_def catchClause_def invocation_def goodInvocation_def legacyCalldata_def
  goodSignature_def example_deps_def example_bigIntToBytes.simps example_fromSerializedData_def
  bind_thrown_def addSignature_def isLegacyTx_def isAccessListEIP2930Tx_def
  isFeeMarketEIP1559TxData_def legacyTxData_def accessListTxData_def feeMarketTxData_def
  example_construct_def example_legacy_def example_typed_def uint256ToBN_def toString.simps
  digit_def

lemmas example_block_defs =
  toEthTx_def example_toJSON_def example_getSenderAddress_def spec_helpers_def spec_toEthLog_def
  spec_toEthReceipt_def spec_toEthHeader_def spec_fromJsonRpcReceipt_def spec_logsBloom_def
  bloomAdd_def outcomeGasUsed_def outcomeStatus_def ignoredKeys_def exampleHeader_def
  transferEvent_def ignoredEvent_def transform_def awaitAll_def eventsOrEmpty_def
  blockNumberOf_def blockHashOf_def initialState_def task_start_def
  task_afterTransactionPut_def task_afterReceiptPut_def taskItems_def withTimes_def
  ethLogsOf_def indexLogs_def firstPutSettled_def secondPutSettled_def orElse_def showOpt_def
  Let_def

text \<open>
  The guard \<^verbatim>\<open>!calldata\<close> catches absent calldata: \<^verbatim>\<open>toTypedEthTx\<close> reports
  \<^verbatim>\<open>No calldata\<close> and returns \<^verbatim>\<open>null\<close>, and the block comes out as it does without
  the invocation.
\<close>

lemma absent_calldata_dropped:
  assumes "st_invokeV1 (ewt_transaction x) = None"
  shows "toTypedEthTx D (ewt_transaction x) = ([''No calldata''], Inr None)
       \<and> awaitAll D H header (Some (pre @ [(x, t)] @ post)) =
           awaitAll D H header (Some (pre @ post))
       \<and> transform D H header (Some (pre @ [(x, t)] @ post)) =
           transform D H header (Some (pre @ post))"
proof -
  have d: "toTypedEthTx D (ewt_transaction x) = ([''No calldata''], Inr None)"
    using assms by (simp add: toTypedEthTx_def)
  then have "decoded D H header x = Inr None"
    by (simp add: decoded_dropped)
  then show ?thesis
    using d dropped_awaitAll dropped_transform by blast
qed

text \<open>
  A calldata array that starts with 1 and has fewer than six elements leaves an empty
  payload. When the parser rejects the empty payload with an \<^verbatim>\<open>Error\<close>, the
  invocation is dropped as well and the block goes on, though the line written is that
  of an invalid transaction.
\<close>

lemma short_calldata_dropped:
  assumes "st_invokeV1 (ewt_transaction x) = Some invoke"
    and "iv_calldata invoke = 1 # rest"
    and "length (iv_calldata invoke) < 6"
    and "length (tm_signature (st_meta (ewt_transaction x))) = 5"
    and "fromSerializedData D [] = Inl e"
    and "instanceof_Error e"
  shows "toTypedEthTx D (ewt_transaction x) = ([''Invalid transaction: '' @ message e], Inr None)
       \<and> awaitAll D H header (Some (pre @ [(x, t)] @ post)) =
           awaitAll D H header (Some (pre @ post))
       \<and> transform D H header (Some (pre @ [(x, t)] @ post)) =
           transform D H header (Some (pre @ post))"
proof -
  have "drop 6 (iv_calldata invoke) = []"
    using assms(3) by simp
  then have d: "toTypedEthTx D (ewt_transaction x) =
      ([''Invalid transaction: '' @ message e], Inr None)"
    using assms(1,2,4,5,6)
    by (simp add: toTypedEthTx_def Let_def tryBody_def bind_thrown_def catchClause_def)
  then have "decoded D H header x = Inr None"
    by (simp add: decoded_dropped)
  then show ?thesis
    using d dropped_awaitAll dropped_transform by blast
qed

lemma short_calldata_example:
  "toTypedEthTx example_deps (ewt_transaction shortCalldataInvocation) =
     ([''Invalid transaction: Invalid serialized tx input. Must be array''], Inr None)"
  by (simp add: shortCalldataInvocation_def example_tx_defs)

text \<open>
  Claim C2 asks that an invocation with an empty calldata sequence be dropped like one
  without calldata while the block goes on. The code misses this case: the guard
  \<^verbatim>\<open>!calldata\<close> does not hold for the empty array, so \<^verbatim>\<open>BigInt(calldata[0])\<close>, which
  stands outside the \<^verbatim>\<open>try\<close> block, throws a \<^verbatim>\<open>TypeError\<close>. The promise of the task
  is rejected and \<^verbatim>\<open>transform\<close> throws: at the input below the whole block is lost,
  although the other invocation alone makes a block that returns its items.
\<close>

theorem empty_calldata_aborts_block:
  "iv_calldata (the (st_invokeV1 (ewt_transaction emptyCalldataInvocation))) = []
   \<and> snd (toTypedEthTx example_deps (ewt_transaction emptyCalldataInvocation)) =
     Inl (TypeError ''Cannot convert undefined to a BigInt'')
   \<and> transform example_deps spec_helpers exampleHeader
       (Some [(goodInvocation 0 [] 50, 0, 0), (emptyCalldataInvocation, 0, 0)]) =
     Inl (TypeError ''Cannot convert undefined to a BigInt'')
   \<and> \<not> isl (transform example_deps spec_helpers exampleHeader
       (Some [(goodInvocation 0 [] 50, 0, 0)]))"
  by (simp add: emptyCalldataInvocation_def example_tx_defs example_block_defs)

subsection \<open>Signature reconstruction and attachment\<close>

text \<open>
  Claim C4. Signature reconstruction is the step of \<^verbatim>\<open>toTypedEthTx\<close> after the call
  array length has been found to be 1. There, a signature of any length other than 5
  is reported with its length, \<^verbatim>\<open>null\<close> is returned, and the block comes out as it
  does without the invocation. With exactly five limbs the \<^verbatim>\<open>try\<close> block gets
  \<open>r = limbs[1] << 128 | limbs[0]\<close>, \<open>s = limbs[3] << 128 | limbs[2]\<close> and
  \<open>v = limbs[4]\<close> as they are: nothing is checked before parsing and attachment.
\<close>

theorem signature_reconstruction:
  assumes "st_invokeV1 (ewt_transaction x) = Some invoke"
    and "iv_calldata invoke = 1 # rest"
    and "limbs = tm_signature (st_meta (ewt_transaction x))"
  shows "(length limbs \<noteq> 5 \<longrightarrow>
            toTypedEthTx D (ewt_transaction x) =
              ([''Invalid signature length '' @ toString (length limbs)], Inr None)
          \<and> awaitAll D H header (Some (pre @ [(x, t)] @ post)) =
              awaitAll D H header (Some (pre @ post))
          \<and> transform D H header (Some (pre @ [(x, t)] @ post)) =
              transform D H header (Some (pre @ post)))
       \<and> (length limbs = 5 \<longrightarrow>
            toTypedEthTx D (ewt_transaction x) =
              catchClause
                (tryBody D (concat (map (bigIntToBytes D) (drop 6 (iv_calldata invoke))))
                   (push_bit 128 (limbs ! 1) OR limbs ! 0)
                   (push_bit 128 (limbs ! 3) OR limbs ! 2)
                   (limbs ! 4)))"
proof (intro conjI impI)
  assume n: "length limbs \<noteq> 5"
  show d: "toTypedEthTx D (ewt_transaction x) =
      ([''Invalid signature length '' @ toString (length limbs)], Inr None)"
    using assms n by (simp add: toTypedEthTx_def)
  then have "decoded D H header x = Inr None"
    by (simp add: decoded_dropped)
  then show "awaitAll D H header (Some (pre @ [(x, t)] @ post)) =
        awaitAll D H header (Some (pre @ post))"
    and "transform D H header (Some (pre @ [(x, t)] @ post)) =
        transform D H header (Some (pre @ post))"
    by (rule dropped_awaitAll, rule dropped_transform)
next
  assume "length limbs = 5"
  then show "toTypedEthTx D (ewt_transaction x) =
      catchClause
        (tryBody D (concat (map (bigIntToBytes D) (drop 6 (iv_calldata invoke))))
           (push_bit 128 (limbs ! 1) OR limbs ! 0)
           (push_bit 128 (limbs ! 3) OR limbs ! 2)
           (limbs ! 4))"
    using assms by (simp add: toTypedEthTx_def uint256ToBN_def Let_def)
qed

theorem signature_reconstruction_witness:
  "(toTypedEthTx example_deps (ewt_transaction shortSignatureInvocation) =
      ([''Invalid signature length 4''], Inr None)
    \<and> transform example_deps spec_helpers exampleHeader
        (Some ([(goodInvocation 0 [] 50, 0, 0)] @ [(shortSignatureInvocation, 0, 0)] @ [])) =
      transform example_deps spec_helpers exampleHeader
        (Some ([(goodInvocation 0 [] 50, 0, 0)] @ [])))
   \<and> toTypedEthTx example_deps (ewt_transaction wideSignatureInvocation) =
       catchClause (tryBody example_deps [200, 5] 340282366920938463463374607431768211467 680564733841876926926749214863536422925 37)
   \<and> catchClause (tryBody example_deps [200, 5] 340282366920938463463374607431768211467 680564733841876926926749214863536422925 37) =
       ([], Inr (Some \<lparr>tx_type = Legacy, tx_chainId = None, tx_nonce = 1, tx_gasPrice = Some 1,
          tx_maxPriorityFeePerGas = None, tx_maxFeePerGas = None, tx_gasLimit = 21000,
          tx_to = None, tx_value = 0, tx_data = [5], tx_accessList = None, tx_v = Some 37,
          tx_r = Some 340282366920938463463374607431768211467, tx_s = Some 680564733841876926926749214863536422925\<rparr>))"
proof -
  have a1: "st_invokeV1 (ewt_transaction shortSignatureInvocation) =
      Some \<lparr>iv_calldata = legacyCalldata\<rparr>"
    by (simp add: shortSignatureInvocation_def invocation_def)
  have a2: "st_invokeV1 (ewt_transaction wideSignatureInvocation) =
      Some \<lparr>iv_calldata = legacyCalldata\<rparr>"
    by (simp add: wideSignatureInvocation_def invocation_def)
  have c: "iv_calldata \<lparr>iv_calldata = legacyCalldata\<rparr> = 1 # [0, 0, 0, 2, 2, 200, 5]"
    by (simp add: legacyCalldata_def)
  have l1: "[11, 0, 13, 0] = tm_signature (st_meta (ewt_transaction shortSignatureInvocation))"
    by (simp add: shortSignatureInvocation_def invocation_def)
  have l2: "[11, 1, 13, 2, 37] = tm_signature (st_meta (ewt_transaction wideSignatureInvocation))"
    by (simp add: wideSignatureInvocation_def invocation_def)
  have s: "toString (Suc (Suc (Suc (Suc 0)))) = ''4''"
    by (simp add: toString.simps digit_def)
  have b: "concat (map (bigIntToBytes example_deps) (drop 6 legacyCalldata)) = [200, 5]"
    by (simp add: legacyCalldata_def example_deps_def example_bigIntToBytes.simps)
  have r: "push_bit 128 (1::nat) OR 11 = 340282366920938463463374607431768211467" "push_bit 128 (2::nat) OR 13 = 680564733841876926926749214863536422925"
    by simp_all
  have e: "catchClause (tryBody example_deps [200, 5] 340282366920938463463374607431768211467 680564733841876926926749214863536422925 37) =
       ([], Inr (Some \<lparr>tx_type = Legacy, tx_chainId = None, tx_nonce = 1, tx_gasPrice = Some 1,
          tx_maxPriorityFeePerGas = None, tx_maxFeePerGas = None, tx_gasLimit = 21000,
          tx_to = None, tx_value = 0, tx_data = [5], tx_accessList = None, tx_v = Some 37,
          tx_r = Some 340282366920938463463374607431768211467, tx_s = Some 680564733841876926926749214863536422925\<rparr>))"
    by (simp add: catchClause_def tryBody_def example_deps_def example_fromSerializedData_def
        bind_thrown_def addSignature_def isLegacyTx_def legacyTxData_def example_construct_def
        example_legacy_def)
  show ?thesis
    using signature_reconstruction [OF a1 c l1, of example_deps spec_helpers exampleHeader
        "[(goodInvocation 0 [] 50, 0, 0)]" "(0, 0)" "[]"]
      signature_reconstruction [OF a2 c l2, of example_deps spec_helpers exampleHeader
        "[]" "(0, 0)" "[]"]
    by (simp add: s b r e)
qed

lemma catchClause_Error:
  "instanceof_Error e \<Longrightarrow> catchClause (Inl e) = ([''Invalid transaction: '' @ message e], Inr None)"
  by (simp add: catchClause_def)

lemma catchClause_NonError:
  "\<not> instanceof_Error e \<Longrightarrow> catchClause (Inl e) = ([''Unknown throw '' @ message e], Inl e)"
  by (simp add: catchClause_def)

lemma toTypedEthTx_reached:
  assumes "st_invokeV1 (ewt_transaction x) = Some invoke"
    and "iv_calldata invoke = 1 # rest"
    and "tm_signature (st_meta (ewt_transaction x)) = [rl, rh, sl, sh, v]"
  shows "toTypedEthTx D (ewt_transaction x) =
           catchClause (tryBody D (concat (map (bigIntToBytes D) (drop 6 (iv_calldata invoke))))
             (uint256ToBN rh rl) (uint256ToBN sh sl) v)"
  using assms by (simp add: toTypedEthTx_def Let_def)

text \<open>
  Claim C5 says that a legacy transaction with \<open>v \<ge> 35\<close> is accepted. The check of
  \<^verbatim>\<open>addSignature\<close> itself lets such a \<open>v\<close> pass, but then the legacy constructor of
  the library has its say, and it refuses 35 and 36: the invocation with \<open>v = 35\<close>
  is dropped like the one with \<open>v = 27\<close>, only with the constructor's message.
\<close>

theorem signature_v_counterexample:
  "addSignature example_deps unsignedLegacy 11 13 35 =
     Inl (Error ''Legacy txs need either v = 27/28 or v >= 37 (EIP-155 replay protection), got v = 35'')
   \<and> toTypedEthTx example_deps (ewt_transaction v35Invocation) =
     ([''Invalid transaction: Legacy txs need either v = 27/28 or v >= 37 (EIP-155 replay protection), got v = 35''],
      Inr None)"
  by (simp add: v35Invocation_def unsignedLegacy_def example_tx_defs)

text \<open>
  Claim C5 as amended. For a legacy transaction \<^verbatim>\<open>addSignature\<close> throws an \<^verbatim>\<open>Error\<close>
  when \<open>v < 35\<close>, whatever the library, and the invocation is dropped. For
  \<open>v \<ge> 35\<close>, and for an access-list or a fee-market transaction with any \<open>v\<close>, it
  makes no check of its own: it hands the fields with this very \<open>v\<close> to the
  constructor of the type and returns or throws what the library's constructors return
  or throw. So the signature is accepted exactly when the library accepts it; the
  invocation then comes out of \<^verbatim>\<open>toTypedEthTx\<close> with the library's signed transaction,
  and it is dropped when the library refuses with an \<^verbatim>\<open>Error\<close>.
\<close>

theorem signature_v:
  "(isLegacyTx tx \<and> v < 35 \<longrightarrow>
      addSignature D tx r s v = Inl (Error (''Invalid v value: '' @ toString v)))
   \<and> (isLegacyTx tx \<and> 35 \<le> v \<longrightarrow>
      addSignature D tx r s v =
        bind_thrown (LegacyTransaction_fromTxData D (legacyTxData tx r s v)) (fromTxData D)
      \<and> td_v (legacyTxData tx r s v) = v)
   \<and> (isAccessListEIP2930Tx tx \<longrightarrow>
      addSignature D tx r s v =
        bind_thrown (AccessListEIP2930Transaction_fromTxData D (accessListTxData tx r s v))
          (fromTxData D)
      \<and> td_v (accessListTxData tx r s v) = v)
   \<and> (isFeeMarketEIP1559TxData tx \<longrightarrow>
      addSignature D tx r s v =
        bind_thrown (FeeMarketEIP1559Transaction_fromTxData D (feeMarketTxData tx r s v))
          (fromTxData D)
      \<and> td_v (feeMarketTxData tx r s v) = v)
   \<and> (st_invokeV1 (ewt_transaction x) = Some invoke \<and> iv_calldata invoke = 1 # rest
       \<and> tm_signature (st_meta (ewt_transaction x)) = [rl, rh, sl, sh, v]
       \<and> fromSerializedData D (concat (map (bigIntToBytes D) (drop 6 (iv_calldata invoke)))) = Inr tx
       \<longrightarrow>
      (isLegacyTx tx \<and> v < 35 \<longrightarrow>
         toTypedEthTx D (ewt_transaction x) =
           ([''Invalid transaction: Invalid v value: '' @ toString v], Inr None)
         \<and> transform D H header (Some (pre @ [(x, t)] @ post)) =
             transform D H header (Some (pre @ post)))
      \<and> (\<forall>ethTx. addSignature D tx (uint256ToBN rh rl) (uint256ToBN sh sl) v = Inr ethTx \<longrightarrow>
             toTypedEthTx D (ewt_transaction x) = ([], Inr (Some ethTx)))
      \<and> (\<forall>e. addSignature D tx (uint256ToBN rh rl) (uint256ToBN sh sl) v = Inl e
               \<and> instanceof_Error e \<longrightarrow>
             toTypedEthTx D (ewt_transaction x) =
               ([''Invalid transaction: '' @ message e], Inr None)
             \<and> transform D H header (Some (pre @ [(x, t)] @ post)) =
                 transform D H header (Some (pre @ post))))"
proof (intro conjI impI allI)
  show "addSignature D tx r s v = Inl (Error (''Invalid v value: '' @ toString v))"
    if "isLegacyTx tx \<and> v < 35"
    using that by (simp add: addSignature_def bind_thrown_def)
  show "addSignature D tx r s v =
      bind_thrown (LegacyTransaction_fromTxData D (legacyTxData tx r s v)) (fromTxData D)"
    if "isLegacyTx tx \<and> 35 \<le> v"
    using that by (simp add: addSignature_def)
  show "addSignature D tx r s v =
      bind_thrown (AccessListEIP2930Transaction_fromTxData D (accessListTxData tx r s v))
        (fromTxData D)"
    if "isAccessListEIP2930Tx tx"
    using that by (simp add: addSignature_def isLegacyTx_def isAccessListEIP2930Tx_def)
  show "addSignature D tx r s v =
      bind_thrown (FeeMarketEIP1559Transaction_fromTxData D (feeMarketTxData tx r s v))
        (fromTxData D)"
    if "isFeeMarketEIP1559TxData tx"
    using that
    by (simp add: addSignature_def isLegacyTx_def isAccessListEIP2930Tx_def
        isFeeMarketEIP1559TxData_def)
  show "td_v (legacyTxData tx r s v) = v" "td_v (accessListTxData tx r s v) = v"
    "td_v (feeMarketTxData tx r s v) = v"
    by (simp_all add: legacyTxData_def accessListTxData_def feeMarketTxData_def)
next
  assume a: "st_invokeV1 (ewt_transaction x) = Some invoke \<and> iv_calldata invoke = 1 # rest
       \<and> tm_signature (st_meta (ewt_transaction x)) = [rl, rh, sl, sh, v]
       \<and> fromSerializedData D (concat (map (bigIntToBytes D) (drop 6 (iv_calldata invoke)))) = Inr tx"
  then have p: "fromSerializedData D (concat (map (bigIntToBytes D) (drop 6 (iv_calldata invoke)))) = Inr tx"
    by blast
  from a have "toTypedEthTx D (ewt_transaction x) =
      catchClause (tryBody D (concat (map (bigIntToBytes D) (drop 6 (iv_calldata invoke))))
        (uint256ToBN rh rl) (uint256ToBN sh sl) v)"
    by (intro toTypedEthTx_reached) blast+
  then have c: "toTypedEthTx D (ewt_transaction x) =
      catchClause (addSignature D tx (uint256ToBN rh rl) (uint256ToBN sh sl) v)"
    by (simp add: tryBody_def p bind_thrown_def)
  {
    assume "isLegacyTx tx \<and> v < 35"
    then have "addSignature D tx (uint256ToBN rh rl) (uint256ToBN sh sl) v =
        Inl (Error (''Invalid v value: '' @ toString v))"
      by (simp add: addSignature_def bind_thrown_def)
    with c show d: "toTypedEthTx D (ewt_transaction x) =
        ([''Invalid transaction: Invalid v value: '' @ toString v], Inr None)"
      by (simp add: catchClause_Error)
    then have "decoded D H header x = Inr None"
      by (simp add: decoded_dropped)
    then show "transform D H header (Some (pre @ [(x, t)] @ post)) =
        transform D H header (Some (pre @ post))"
      by (rule dropped_transform)
  }
  {
    fix ethTx
    assume "addSignature D tx (uint256ToBN rh rl) (uint256ToBN sh sl) v = Inr ethTx"
    with c show "toTypedEthTx D (ewt_transaction x) = ([], Inr (Some ethTx))"
      by (simp add: catchClause_def)
  }
  {
    fix e
    assume "addSignature D tx (uint256ToBN rh rl) (uint256ToBN sh sl) v = Inl e
        \<and> instanceof_Error e"
    with c show d: "toTypedEthTx D (ewt_transaction x) =
        ([''Invalid transaction: '' @ message e], Inr None)"
      by (simp add: catchClause_Error)
    then have "decoded D H header x = Inr None"
      by (simp add: decoded_dropped)
    then show "transform D H header (Some (pre @ [(x, t)] @ post)) =
        transform D H header (Some (pre @ post))"
      by (rule dropped_transform)
  }
qed

theorem signature_v_witness:
  "addSignature example_deps unsignedLegacy 11 13 27 = Inl (Error ''Invalid v value: 27'')
   \<and> addSignature example_deps unsignedLegacy 11 13 37 = Inr signedLegacy
   \<and> addSignature example_deps unsignedAccessList 11 13 0 =
       Inr (unsignedAccessList\<lparr>tx_v := Some 0, tx_r := Some 11, tx_s := Some 13\<rparr>)
   \<and> addSignature example_deps unsignedFeeMarket 11 13 1 =
       Inr (unsignedFeeMarket\<lparr>tx_v := Some 1, tx_r := Some 11, tx_s := Some 13\<rparr>)
   \<and> toTypedEthTx example_deps (ewt_transaction lowVInvocation) =
       ([''Invalid transaction: Invalid v value: 27''], Inr None)
   \<and> transform example_deps spec_helpers exampleHeader
       (Some ([(goodInvocation 0 [] 50, 0, 0)] @ [(lowVInvocation, 0, 0)] @ [])) =
     transform example_deps spec_helpers exampleHeader
       (Some ([(goodInvocation 0 [] 50, 0, 0)] @ []))
   \<and> toTypedEthTx example_deps (ewt_transaction (goodInvocation 0 [] 50)) =
       ([], Inr (Some signedLegacy))
   \<and> toTypedEthTx example_deps (ewt_transaction v35Invocation) =
       ([''Invalid transaction: Legacy txs need either v = 27/28 or v >= 37 (EIP-155 replay protection), got v = 35''],
        Inr None)
   \<and> transform example_deps spec_helpers exampleHeader
       (Some ([(goodInvocation 0 [] 50, 0, 0)] @ [(v35Invocation, 0, 0)] @ [])) =
     transform example_deps spec_helpers exampleHeader
       (Some ([(goodInvocation 0 [] 50, 0, 0)] @ []))"
proof -
  have s: "toString 27 = ''27''" "toString 35 = ''35''"
    by (simp_all add: toString.simps digit_def)
  have ty: "isLegacyTx unsignedLegacy" "isAccessListEIP2930Tx unsignedAccessList"
    "isFeeMarketEIP1559TxData unsignedFeeMarket"
    by (simp_all add: isLegacyTx_def isAccessListEIP2930Tx_def isFeeMarketEIP1559TxData_def
        unsignedLegacy_def unsignedAccessList_def unsignedFeeMarket_def)
  have c1: "bind_thrown (LegacyTransaction_fromTxData example_deps (legacyTxData unsignedLegacy 11 13 37))
        (fromTxData example_deps) = Inr signedLegacy"
    by (simp add: example_deps_def example_legacy_def example_construct_def legacyTxData_def
        bind_thrown_def unsignedLegacy_def signedLegacy_def)
  have c1': "bind_thrown (LegacyTransaction_fromTxData example_deps (legacyTxData unsignedLegacy 11 13 35))
        (fromTxData example_deps) =
      Inl (Error ''Legacy txs need either v = 27/28 or v >= 37 (EIP-155 replay protection), got v = 35'')"
    by (simp add: example_deps_def example_legacy_def legacyTxData_def bind_thrown_def
        unsignedLegacy_def s)
  have c2: "bind_thrown (AccessListEIP2930Transaction_fromTxData example_deps
        (accessListTxData unsignedAccessList 11 13 0)) (fromTxData example_deps) =
      Inr (unsignedAccessList\<lparr>tx_v := Some 0, tx_r := Some 11, tx_s := Some 13\<rparr>)"
    by (simp add: example_deps_def example_typed_def example_construct_def accessListTxData_def
        bind_thrown_def unsignedLegacy_def unsignedAccessList_def)
  have c3: "bind_thrown (FeeMarketEIP1559Transaction_fromTxData example_deps
        (feeMarketTxData unsignedFeeMarket 11 13 1)) (fromTxData example_deps) =
      Inr (unsignedFeeMarket\<lparr>tx_v := Some 1, tx_r := Some 11, tx_s := Some 13\<rparr>)"
    by (simp add: example_deps_def example_typed_def example_construct_def feeMarketTxData_def
        bind_thrown_def unsignedLegacy_def unsignedFeeMarket_def)
  have u: "uint256ToBN 0 11 = 11" "uint256ToBN 0 13 = 13"
    by (simp_all add: uint256ToBN_def)
  have p: "fromSerializedData example_deps (concat (map (bigIntToBytes example_deps)
        (drop 6 (iv_calldata \<lparr>iv_calldata = legacyCalldata\<rparr>)))) = Inr unsignedLegacy"
    "iv_calldata \<lparr>iv_calldata = legacyCalldata\<rparr> = 1 # [0, 0, 0, 2, 2, 200, 5]"
    by (simp_all add: legacyCalldata_def example_deps_def example_bigIntToBytes.simps
        example_fromSerializedData_def unsignedLegacy_def)
  have i27: "st_invokeV1 (ewt_transaction lowVInvocation) = Some \<lparr>iv_calldata = legacyCalldata\<rparr>"
    "tm_signature (st_meta (ewt_transaction lowVInvocation)) = [11, 0, 13, 0, 27]"
    by (simp_all add: lowVInvocation_def invocation_def)
  have i37: "st_invokeV1 (ewt_transaction (goodInvocation 0 [] 50)) =
      Some \<lparr>iv_calldata = legacyCalldata\<rparr>"
    "tm_signature (st_meta (ewt_transaction (goodInvocation 0 [] 50))) = [11, 0, 13, 0, 37]"
    by (simp_all add: goodInvocation_def invocation_def goodSignature_def)
  have i35: "st_invokeV1 (ewt_transaction v35Invocation) = Some \<lparr>iv_calldata = legacyCalldata\<rparr>"
    "tm_signature (st_meta (ewt_transaction v35Invocation)) = [11, 0, 13, 0, 35]"
    by (simp_all add: v35Invocation_def invocation_def)
  have a27: "addSignature example_deps unsignedLegacy 11 13 27 = Inl (Error ''Invalid v value: 27'')"
    using signature_v [of unsignedLegacy 27 example_deps 11 13] ty s by simp
  have a37: "addSignature example_deps unsignedLegacy 11 13 37 = Inr signedLegacy"
    using signature_v [of unsignedLegacy 37 example_deps 11 13] ty c1 by simp
  have a35: "addSignature example_deps unsignedLegacy 11 13 35 =
      Inl (Error ''Legacy txs need either v = 27/28 or v >= 37 (EIP-155 replay protection), got v = 35'')"
    using signature_v [of unsignedLegacy 35 example_deps 11 13] ty c1' by simp
  have "addSignature example_deps unsignedAccessList 11 13 0 =
      Inr (unsignedAccessList\<lparr>tx_v := Some 0, tx_r := Some 11, tx_s := Some 13\<rparr>)"
    using signature_v [of unsignedAccessList 0 example_deps 11 13] ty c2 by simp
  moreover have "addSignature example_deps unsignedFeeMarket 11 13 1 =
      Inr (unsignedFeeMarket\<lparr>tx_v := Some 1, tx_r := Some 11, tx_s := Some 13\<rparr>)"
    using signature_v [of unsignedFeeMarket 1 example_deps 11 13] ty c3 by simp
  moreover have "toTypedEthTx example_deps (ewt_transaction lowVInvocation) =
       ([''Invalid transaction: Invalid v value: 27''], Inr None)
   \<and> transform example_deps spec_helpers exampleHeader
       (Some ([(goodInvocation 0 [] 50, 0, 0)] @ [(lowVInvocation, 0, 0)] @ [])) =
     transform example_deps spec_helpers exampleHeader
       (Some ([(goodInvocation 0 [] 50, 0, 0)] @ []))"
    using signature_v [of unsignedLegacy 27 example_deps 11 13 lowVInvocation
        "\<lparr>iv_calldata = legacyCalldata\<rparr>" "[0, 0, 0, 2, 2, 200, 5]" 11 0 13 0
        spec_helpers exampleHeader "[(goodInvocation 0 [] 50, 0, 0)]" "(0, 0)" "[]"]
      i27 p ty s by simp
  moreover have "toTypedEthTx example_deps (ewt_transaction (goodInvocation 0 [] 50)) =
       ([], Inr (Some signedLegacy))"
    using signature_v [of unsignedLegacy 37 example_deps 11 13 "goodInvocation 0 [] 50"
        "\<lparr>iv_calldata = legacyCalldata\<rparr>" "[0, 0, 0, 2, 2, 200, 5]" 11 0 13 0
        spec_helpers exampleHeader "[]" "(0, 0)" "[]"]
      i37 p u a37 by simp
  moreover have "toTypedEthTx example_deps (ewt_transaction v35Invocation) =
       ([''Invalid transaction: Legacy txs need either v = 27/28 or v >= 37 (EIP-155 replay protection), got v = 35''],
        Inr None)
   \<and> transform example_deps spec_helpers exampleHeader
       (Some ([(goodInvocation 0 [] 50, 0, 0)] @ [(v35Invocation, 0, 0)] @ [])) =
     transform example_deps spec_helpers exampleHeader
       (Some ([(goodInvocation 0 [] 50, 0, 0)] @ []))"
    using signature_v [of unsignedLegacy 35 example_deps 11 13 v35Invocation
        "\<lparr>iv_calldata = legacyCalldata\<rparr>" "[0, 0, 0, 2, 2, 200, 5]" 11 0 13 0
        spec_helpers exampleHeader "[(goodInvocation 0 [] 50, 0, 0)]" "(0, 0)" "[]"]
      i35 p u a35 by simp
  ultimately show ?thesis
    using a27 a37 by blast
qed

subsection \<open>A receipt without a transaction index\<close>

text \<open>
  An undefined or null index never changes what \<^verbatim>\<open>toEthTx\<close> returns or throws: it is
  what the function returns or throws for index 0. The only difference is the one
  diagnostic line, written first, for an undefined index; a null index is put to 0
  without it.
\<close>

lemma missing_index_as_zero:
  assumes "rc_transactionIndex receipt = Undefined \<or> rc_transactionIndex receipt = Null"
  shows "snd (toEthTx D H tx receipt blockNumber blockHash) =
           snd (toEthTx D H tx (receipt\<lparr>rc_transactionIndex := Defined 0\<rparr>) blockNumber blockHash)
       \<and> fst (toEthTx D H tx receipt blockNumber blockHash) =
           (if rc_transactionIndex receipt = Undefined then [indexUndefinedMessage] else [])
           @ fst (toEthTx D H tx (receipt\<lparr>rc_transactionIndex := Defined 0\<rparr>) blockNumber blockHash)"
  using assms
  by (auto simp: toEthTx_def Let_def split: sum.splits option.splits)

text \<open>
  When the three methods of the transaction return and the transaction is signed,
  \<^verbatim>\<open>toEthTx\<close> returns this record, with index 0 for a receipt without index.
\<close>

lemma missing_index_record:
  assumes "rc_transactionIndex receipt = Undefined"
    and "toJSON D tx = Inr txJSON"
    and "js_r txJSON = Some r" and "js_s txJSON = Some s" and "js_v txJSON = Some v"
    and "getSenderAddress D tx = Inr sender"
    and "txHash D tx = Inr h"
  shows "toEthTx D H tx receipt blockNumber blockHash =
     ([indexUndefinedMessage],
      Inr (Some
        \<lparr>jr_blockHash = blockHash,
         jr_blockNumber = blockNumber,
         jr_from = sender,
         jr_gas = js_gasLimit txJSON,
         jr_gasPrice = orElse (js_gasPrice txJSON) (js_maxFeePerGas txJSON),
         jr_maxFeePerGas = js_maxFeePerGas txJSON,
         jr_maxPriorityFeePerGas = js_maxPriorityFeePerGas txJSON,
         jr_type = intToHex D (txTypeNumber (tx_type tx)),
         jr_accessList = js_accessList txJSON,
         jr_chainId = js_chainId txJSON,
         jr_hash = padBytes H h 32,
         jr_input = js_data txJSON,
         jr_nonce = js_nonce txJSON,
         jr_to = tx_to tx,
         jr_transactionIndex = 0,
         jr_value = js_value txJSON,
         jr_v = v,
         jr_r = r,
         jr_s = s,
         jr_maxFeePerBlobGas = js_maxFeePerBlobGas txJSON,
         jr_blobVersionedHashes = js_blobVersionedHashes txJSON\<rparr>))"
  using assms by (simp add: toEthTx_def Let_def)

lemma missing_index_example:
  "toEthTx example_deps spec_helpers signedLegacy receiptWithoutIndex ''0x10'' ''0xaa'' =
     ([indexUndefinedMessage], Inr (Some (exampleTx 0)))"
  "toEthTx example_deps spec_helpers signedLegacy receiptWithNullIndex ''0x10'' ''0xaa'' =
     ([], Inr (Some (exampleTx 0)))"
  by (simp_all add: toEthTx_def example_deps_def example_toJSON_def example_getSenderAddress_def
      spec_helpers_def signedLegacy_def unsignedLegacy_def receiptWithoutIndex_def
      receiptWithNullIndex_def exampleTx_def orElse_def toString.simps digit_def Let_def)


subsection \<open>What the catch clause lets through\<close>

text \<open>
  Claim C10. When the \<^verbatim>\<open>try\<close> block (parsing the payload, then attaching the
  signature) throws a value that is not an \<^verbatim>\<open>Error\<close>, \<^verbatim>\<open>toTypedEthTx\<close> throws it again:
  the promise of the task is rejected and \<^verbatim>\<open>transform\<close> throws for every block with
  that invocation, with this very value when no earlier invocation of the delivery
  throws. A thrown \<^verbatim>\<open>Error\<close> becomes \<^verbatim>\<open>null\<close>, and the invocation alone is dropped.
\<close>

theorem non_error_rethrown:
  assumes "st_invokeV1 (ewt_transaction x) = Some invoke"
    and "iv_calldata invoke = 1 # rest"
    and "tm_signature (st_meta (ewt_transaction x)) = [rl, rh, sl, sh, v]"
    and "tryBody D (concat (map (bigIntToBytes D) (drop 6 (iv_calldata invoke))))
           (uint256ToBN rh rl) (uint256ToBN sh sl) v = Inl e"
  shows "(\<not> instanceof_Error e \<longrightarrow>
            snd (toTypedEthTx D (ewt_transaction x)) = Inl e
          \<and> isl (transform D H header (Some (pre @ [(x, t)] @ post)))
          \<and> (firstRejection (outcomes D H header pre) = None \<longrightarrow>
               transform D H header (Some (pre @ [(x, t)] @ post)) = Inl e))
       \<and> (instanceof_Error e \<longrightarrow>
            snd (toTypedEthTx D (ewt_transaction x)) = Inr None
          \<and> transform D H header (Some (pre @ [(x, t)] @ post)) =
              transform D H header (Some (pre @ post)))"
proof (intro conjI impI)
  have r: "toTypedEthTx D (ewt_transaction x) = catchClause (Inl e)"
    using toTypedEthTx_reached [OF assms(1-3), of D] assms(4) by simp
  {
    assume n: "\<not> instanceof_Error e"
    with r show s: "snd (toTypedEthTx D (ewt_transaction x)) = Inl e"
      by (simp add: catchClause_NonError)
    then have d: "decoded D H header x = Inl e"
      by (rule decoded_thrown)
    then show "isl (transform D H header (Some (pre @ [(x, t)] @ post)))"
      by (rule thrown_transform)
    have w: "withTimes t (decoded D H header x) = Inl e"
      using d by (simp add: withTimes_def)
    show "transform D H header (Some (pre @ [(x, t)] @ post)) = Inl e"
      if "firstRejection (outcomes D H header pre) = None"
      using that
      by (simp add: transform_def awaitAll_closed_form eventsOrEmpty_def outcomes_append
          outcomes_Cons w firstRejection_append)
  }
  {
    assume "instanceof_Error e"
    with r show s: "snd (toTypedEthTx D (ewt_transaction x)) = Inr None"
      by (simp add: catchClause_Error)
    then have "decoded D H header x = Inr None"
      by (rule decoded_dropped)
    then show "transform D H header (Some (pre @ [(x, t)] @ post)) =
        transform D H header (Some (pre @ post))"
      by (rule dropped_transform)
  }
qed

theorem non_error_rethrown_witness:
  "(snd (toTypedEthTx example_deps (ewt_transaction throwingInvocation)) =
      Inl (NonError ''thrown string'')
    \<and> isl (transform example_deps spec_helpers exampleHeader
        (Some ([(goodInvocation 0 [] 50, 0, 0)] @ [(throwingInvocation, 0, 0)] @ [])))
    \<and> transform example_deps spec_helpers exampleHeader
        (Some ([] @ [(throwingInvocation, 0, 0)] @ [(goodInvocation 0 [] 50, 0, 0)])) =
      Inl (NonError ''thrown string''))
   \<and> (snd (toTypedEthTx example_deps (ewt_transaction lowVInvocation)) = Inr None
    \<and> transform example_deps spec_helpers exampleHeader
        (Some ([(goodInvocation 0 [] 50, 0, 0)] @ [(lowVInvocation, 0, 0)] @ [])) =
      transform example_deps spec_helpers exampleHeader
        (Some ([(goodInvocation 0 [] 50, 0, 0)] @ [])))"
proof -
  have a: "st_invokeV1 (ewt_transaction throwingInvocation) =
        Some \<lparr>iv_calldata = [1, 0, 0, 0, 2, 2, 255, 5]\<rparr>"
    "iv_calldata \<lparr>iv_calldata = [1, 0, 0, 0, 2, 2, 255, 5]\<rparr> = 1 # [0, 0, 0, 2, 2, 255, 5]"
    "tm_signature (st_meta (ewt_transaction throwingInvocation)) = [11, 0, 13, 0, 37]"
    by (simp_all add: throwingInvocation_def invocation_def goodSignature_def)
  have b: "tryBody example_deps (concat (map (bigIntToBytes example_deps)
        (drop 6 (iv_calldata \<lparr>iv_calldata = [1, 0, 0, 0, 2, 2, 255, 5]\<rparr>))))
        (uint256ToBN 0 11) (uint256ToBN 0 13) 37 = Inl (NonError ''thrown string'')"
    by (simp add: tryBody_def example_deps_def example_bigIntToBytes.simps
        example_fromSerializedData_def bind_thrown_def)
  have a': "st_invokeV1 (ewt_transaction lowVInvocation) = Some \<lparr>iv_calldata = legacyCalldata\<rparr>"
    "iv_calldata \<lparr>iv_calldata = legacyCalldata\<rparr> = 1 # [0, 0, 0, 2, 2, 200, 5]"
    "tm_signature (st_meta (ewt_transaction lowVInvocation)) = [11, 0, 13, 0, 27]"
    by (simp_all add: lowVInvocation_def invocation_def legacyCalldata_def)
  have b': "tryBody example_deps (concat (map (bigIntToBytes example_deps)
        (drop 6 (iv_calldata \<lparr>iv_calldata = legacyCalldata\<rparr>))))
        (uint256ToBN 0 11) (uint256ToBN 0 13) 27 = Inl (Error ''Invalid v value: 27'')"
    by (simp add: tryBody_def example_deps_def example_bigIntToBytes.simps legacyCalldata_def
        example_fromSerializedData_def bind_thrown_def addSignature_def isLegacyTx_def
        toString.simps digit_def)
  have o: "firstRejection (outcomes example_deps spec_helpers exampleHeader []) = None"
    by (simp add: outcomes_def)
  show ?thesis
    using non_error_rethrown [OF a b, of spec_helpers exampleHeader
        "[(goodInvocation 0 [] 50, 0, 0)]" "(0, 0)" "[]"]
      non_error_rethrown [OF a b, of spec_helpers exampleHeader
        "[]" "(0, 0)" "[(goodInvocation 0 [] 50, 0, 0)]"]
      non_error_rethrown [OF a' b', of spec_helpers exampleHeader
        "[(goodInvocation 0 [] 50, 0, 0)]" "(0, 0)" "[]"]
      o
    by simp
qed

subsection \<open>The example block, evaluated\<close>

lemma good_typed:
  "toTypedEthTx example_deps (ewt_transaction (goodInvocation idx evs gas)) =
     ([], Inr (Some signedLegacy))"
  by (simp add: example_tx_defs signedLegacy_def unsignedLegacy_def)

lemma good_ethTx:
  "toEthTx example_deps spec_helpers signedLegacy (ewt_receipt (goodInvocation idx evs gas))
     ''0x10'' ''0xaa'' = ([], Inr (Some (exampleTx idx)))"
  by (simp add: toEthTx_def example_deps_def example_toJSON_def example_getSenderAddress_def
      spec_helpers_def signedLegacy_def unsignedLegacy_def goodInvocation_def invocation_def
      exampleTx_def orElse_def toString.simps digit_def Let_def)

lemma example_numbers:
  "blockNumberOf spec_helpers exampleHeader = ''0x10''"
  "blockHashOf spec_helpers exampleHeader = ''0xaa''"
  by (simp_all add: blockNumberOf_def blockHashOf_def spec_helpers_def exampleHeader_def)

lemma example_logs:
  "indexLogs (ethLogsOf spec_helpers (exampleTx idx) [] ''0x10'' ''0xaa'') = []"
  "indexLogs (ethLogsOf spec_helpers (exampleTx idx) [transferEvent] ''0x10'' ''0xaa'') =
     [exampleLog idx ''0'']"
  "indexLogs (ethLogsOf spec_helpers (exampleTx idx) [transferEvent, ignoredEvent, transferEvent]
     ''0x10'' ''0xaa'') = [exampleLog idx ''0'', exampleLog idx ''1'']"
  by (simp_all add: indexLogs_def ethLogsOf_def spec_helpers_def spec_toEthLog_def
      transferEvent_def ignoredEvent_def ignoredKeys_def exampleTx_def exampleLog_def
      toString.simps digit_def)

lemma example_receipt:
  "logs = [] \<or> logs = [exampleLog idx ''0''] \<or> logs = [exampleLog idx ''0'', exampleLog idx ''1''] \<Longrightarrow>
   toEthReceipt spec_helpers (exampleTx idx) logs
     (ewt_event (goodInvocation idx evs gas)) 0 ''0x10'' ''0xaa'' = exampleReceipt idx gas logs"
  by (auto simp: spec_helpers_def spec_toEthReceipt_def exampleTx_def exampleReceipt_def
      exampleLog_def goodInvocation_def invocation_def outcomeGasUsed_def outcomeStatus_def
      spec_logsBloom_def bloomAdd_def)

lemma good_events:
  "rc_events (ewt_receipt (goodInvocation idx evs gas)) = evs"
  by (simp add: goodInvocation_def invocation_def)

lemma decoded_good:
  "evs = [] \<or> evs = [transferEvent] \<or> evs = [transferEvent, ignoredEvent, transferEvent] \<Longrightarrow>
   decoded example_deps spec_helpers exampleHeader (goodInvocation idx evs gas) =
     Inr (Some (exampleTask idx gas
       (indexLogs (ethLogsOf spec_helpers (exampleTx idx) evs ''0x10'' ''0xaa''))))"
  unfolding decoded_def task_start_def good_typed example_numbers
  by (auto simp: good_ethTx Let_def good_events initialState_def example_logs example_receipt
      exampleTask_def)

lemma decoded_multicall:
  "decoded example_deps spec_helpers exampleHeader multicallInvocation = Inr None"
  by (rule decoded_dropped) (simp add: multicallInvocation_def invocation_def toTypedEthTx_def)

lemma example_outcomes:
  "outcomes example_deps spec_helpers exampleHeader exampleBlock =
     [Inr (Some (exampleTask 1 100 [exampleLog 1 ''0'', exampleLog 1 ''1''], 5, 7)),
      Inr None,
      Inr (Some (exampleTask 0 50 [exampleLog 0 ''0''], 3, 4))]"
  by (simp add: outcomes_def exampleBlock_def decoded_good decoded_multicall example_logs
      withTimes_def)

lemma example_awaitAll:
  "awaitAll example_deps spec_helpers exampleHeader (Some exampleBlock) = Inr exampleState"
proof -
  have "awaitAll example_deps spec_helpers exampleHeader (Some exampleBlock) =
      Inr (finalState example_deps spec_helpers
        [(exampleTask 1 100 [exampleLog 1 ''0'', exampleLog 1 ''1''], 5, 7),
         (exampleTask 0 50 [exampleLog 0 ''0''], 3, 4)])"
    by (simp add: awaitAll_closed_form eventsOrEmpty_def example_outcomes)
  also have "finalState example_deps spec_helpers
        [(exampleTask 1 100 [exampleLog 1 ''0'', exampleLog 1 ''1''], 5, 7),
         (exampleTask 0 50 [exampleLog 0 ''0''], 3, 4)] =
      \<lparr>bs_cumulativeGasUsed = 150, bs_blockLogsBloom = 6,
       bs_transactionTrie = [(1, [5]), (0, [5])],
       bs_receiptTrie = [(0, [50]), (1, [100])],
       bs_store = butlast exampleStore\<rparr>"
    by (simp add: finalState_def firstPutSettled_def secondPutSettled_def orAll_def
        receiptBloom_def txPut_def receiptPut_def taskItems_def exampleTask_def exampleStore_def
        exampleReceipt_def signedLegacy_def unsignedLegacy_def example_deps_def
        spec_helpers_def spec_fromJsonRpcReceipt_def exampleTx_def)
  finally show ?thesis by (simp add: exampleState_def)
qed

lemma example_transform:
  "transform example_deps spec_helpers exampleHeader (Some exampleBlock) = Inr exampleStore"
  by (simp add: transform_def example_awaitAll example_numbers)
    (simp add: spec_helpers_def spec_toEthHeader_def example_deps_def exampleHeader_def
      exampleStore_def exampleState_def)

subsection \<open>The header item\<close>

lemma taskItems_not_header:
  "item \<in> set (taskItems k) \<Longrightarrow>
   collection item = ''transactions'' \<or> collection item = ''receipts'' \<or> collection item = ''logs''"
  by (auto simp: taskItems_def)

lemma completed_items_not_header:
  "item \<in> set (concat (map (taskItems \<circ> fst) ks)) \<Longrightarrow>
   collection item = ''transactions'' \<or> collection item = ''receipts'' \<or> collection item = ''logs''"
  by (auto dest: taskItems_not_header)

text \<open>
  Claim C6. Whenever \<^verbatim>\<open>transform\<close> returns, the store it returns ends with a header
  item, every item before it is a transaction, receipt or log item, and so the store
  holds exactly one header item.
\<close>

theorem header_last:
  assumes "transform D H header events = Inr items"
  shows "items \<noteq> []
       \<and> collection (last items) = ''headers''
       \<and> (\<forall>item \<in> set (butlast items).
            collection item = ''transactions'' \<or> collection item = ''receipts''
            \<or> collection item = ''logs'')
       \<and> length (filter (\<lambda>item. collection item = ''headers'') items) = 1"
proof -
  from transform_closed_form [OF assms] obtain tasks ethHeader where
    items: "items = concat (map (taskItems \<circ> fst) (sort_key secondPutSettled tasks)) @ [Headers ethHeader]"
    by blast
  define body where "body = concat (map (taskItems \<circ> fst) (sort_key secondPutSettled tasks))"
  have b: "\<forall>item \<in> set body.
      collection item = ''transactions'' \<or> collection item = ''receipts'' \<or> collection item = ''logs''"
    unfolding body_def using completed_items_not_header by blast
  have "collection item \<noteq> ''headers''" if "item \<in> set body" for item
    using b that by fastforce
  then have "filter (\<lambda>item. collection item = ''headers'') body = []"
    by (simp add: filter_empty_conv)
  then show ?thesis
    using b by (simp add: items body_def [symmetric])
qed

theorem header_last_witness:
  "transform example_deps spec_helpers exampleHeader (Some exampleBlock) = Inr exampleStore
   \<and> exampleStore \<noteq> []
   \<and> collection (last exampleStore) = ''headers''
   \<and> list_all
        (\<lambda>item. collection item = ''transactions'' \<or> collection item = ''receipts''
           \<or> collection item = ''logs'')
        (butlast exampleStore)
   \<and> length (filter (\<lambda>item. collection item = ''headers'') exampleStore) = 1"
  using header_last [OF example_transform] example_transform
  by (simp only: list_all_iff) blast

subsection \<open>Log items\<close>

lemma decoded_Some:
  assumes "decoded D H header x = Inr (Some k)"
  shows "tk_ethLogs k =
      indexLogs (ethLogsOf H (tk_ethTx k) (rc_events (ewt_receipt x))
        (blockNumberOf H header) (blockHashOf H header))"
    and "tk_ethReceipt k =
      toEthReceipt H (tk_ethTx k) (tk_ethLogs k) (ewt_event x) 0
        (blockNumberOf H header) (blockHashOf H header)"
  using assms
  by (auto simp: decoded_def task_start_def Let_def initialState_def
      split: sum.splits option.splits)

lemma length_indexLogs: "length (indexLogs logs) = length logs"
  by (simp add: indexLogs_def)

lemma logIndex_indexLogs:
  "map lg_logIndex (indexLogs logs) = map (\<lambda>i. Some (toString i)) [0 ..< length logs]"
proof -
  have "map (\<lambda>i. Some (toString i)) [0 ..< length logs] =
      map (\<lambda>i. Some (toString i)) (map snd (zip logs [0 ..< length logs]))"
    by simp
  also have "\<dots> = map (\<lambda>p. Some (toString (snd p))) (zip logs [0 ..< length logs])"
    by (simp only: map_map comp_def)
  also have "\<dots> = map lg_logIndex (indexLogs logs)"
    by (simp add: indexLogs_def split_beta)
  finally show ?thesis by simp
qed

lemma length_ethLogsOf:
  "length (ethLogsOf H ethTx evs bn bh) =
   length (filter (\<lambda>e. toEthLog H ethTx e bn bh \<noteq> None) evs)"
  by (simp add: ethLogsOf_def filter_map comp_def)

lemma survivors_decoded:
  "(x, k) \<in> set (survivors D H header events) \<Longrightarrow> decoded D H header x = Inr (Some k)"
  by (auto simp: survivors_def survivorOf_def split: sum.splits option.splits)

lemma survivor_logs:
  assumes "xk \<in> set (survivors D H header events)"
  shows "length (tk_ethLogs (snd xk)) = nonFilteredEvents H header xk"
    and "map lg_logIndex (tk_ethLogs (snd xk)) =
      map (\<lambda>i. Some (toString i)) [0 ..< length (tk_ethLogs (snd xk))]"
proof -
  obtain x k where xk: "xk = (x, k)" by (cases xk)
  with assms have d: "decoded D H header x = Inr (Some k)"
    by (simp add: survivors_decoded)
  show "length (tk_ethLogs (snd xk)) = nonFilteredEvents H header xk"
    by (simp add: xk decoded_Some(1) [OF d] length_indexLogs length_ethLogsOf
        nonFilteredEvents_def)
  show "map lg_logIndex (tk_ethLogs (snd xk)) =
      map (\<lambda>i. Some (toString i)) [0 ..< length (tk_ethLogs (snd xk))]"
    by (simp add: xk decoded_Some(1) [OF d] logIndex_indexLogs length_indexLogs)
qed

lemma logs_of_taskItems:
  "length (filter (\<lambda>item. collection item = ''logs'') (taskItems k)) = length (tk_ethLogs k)"
  by (simp add: taskItems_def filter_map comp_def)

lemma logs_of_completed:
  "length (filter (\<lambda>item. collection item = ''logs'') (concat (map taskItems ks))) =
   sum_list (map (length \<circ> tk_ethLogs) ks)"
  by (induction ks) (simp_all add: logs_of_taskItems)

lemma sum_list_mset_cong:
  "mset ks = mset ks' \<Longrightarrow> sum_list (map f ks) = sum_list (map (f::'a \<Rightarrow> nat) ks')"
proof -
  assume "mset ks = mset ks'"
  then have "mset (map f ks) = mset (map f ks')"
    by (metis mset_map)
  then show ?thesis
    by (metis sum_mset_sum_list)
qed

text \<open>
  Claim C7. Whenever \<^verbatim>\<open>transform\<close> returns, the number of log items in the store is
  the sum, over the surviving invocations, of the number of events of the receipt that
  \<^verbatim>\<open>toEthLog\<close> does not filter out. The items before the header are the items of the
  surviving tasks, task after task in the order of completion, and within every task
  the \<^verbatim>\<open>logIndex\<close> fields of the logs are the decimal strings of \<open>0, 1, 2, \<dots>\<close> in
  this order: positions in the filtered sequence, starting again at 0 in every task.
\<close>

theorem log_items:
  assumes "transform D H header events = Inr items"
  shows "length (filter (\<lambda>item. collection item = ''logs'') items) =
           sum_list (map (nonFilteredEvents H header) (survivors D H header events))
       \<and> (\<exists>ks. mset ks = mset (map snd (survivors D H header events))
             \<and> butlast items = concat (map taskItems ks)
             \<and> (\<forall>k \<in> set ks.
                  map lg_logIndex (tk_ethLogs k) =
                    map (\<lambda>i. Some (toString i)) [0 ..< length (tk_ethLogs k)]))"
proof -
  from transform_closed_form [OF assms] obtain tasks ethHeader where
    tasks: "tasks = pendingTasks (outcomes D H header (eventsOrEmpty events))" and
    items: "items = concat (map (taskItems \<circ> fst) (sort_key secondPutSettled tasks)) @ [Headers ethHeader]"
    by blast
  define ks where "ks = map fst (sort_key secondPutSettled tasks)"
  have m: "mset ks = mset (map snd (survivors D H header events))"
    unfolding ks_def tasks by (rule completed_mset)
  have i: "items = concat (map taskItems ks) @ [Headers ethHeader]"
    by (simp add: items ks_def)
  have "length (filter (\<lambda>item. collection item = ''logs'') items) =
      sum_list (map (length \<circ> tk_ethLogs) ks)"
    by (simp add: i logs_of_completed)
  also have "\<dots> = sum_list (map (length \<circ> tk_ethLogs) (map snd (survivors D H header events)))"
    by (rule sum_list_mset_cong [OF m])
  also have "\<dots> = sum_list (map (nonFilteredEvents H header) (survivors D H header events))"
    by (simp add: comp_def survivor_logs(1) cong: map_cong)
  finally have count: "length (filter (\<lambda>item. collection item = ''logs'') items) =
      sum_list (map (nonFilteredEvents H header) (survivors D H header events))" .
  have "map lg_logIndex (tk_ethLogs k) = map (\<lambda>i. Some (toString i)) [0 ..< length (tk_ethLogs k)]"
    if "k \<in> set ks" for k
  proof -
    from that m have "k \<in> set (map snd (survivors D H header events))"
      by (metis set_mset_mset)
    then obtain xk where "xk \<in> set (survivors D H header events)" "k = snd xk"
      by auto
    then show ?thesis
      using survivor_logs(2) by blast
  qed
  with m i count show ?thesis
    by auto
qed

lemma example_survivors:
  "survivors example_deps spec_helpers exampleHeader (Some exampleBlock) =
     [(goodInvocation 1 [transferEvent, ignoredEvent, transferEvent] 100,
       exampleTask 1 100 [exampleLog 1 ''0'', exampleLog 1 ''1'']),
      (goodInvocation 0 [transferEvent] 50, exampleTask 0 50 [exampleLog 0 ''0''])]"
  by (simp add: survivors_def survivorOf_def eventsOrEmpty_def exampleBlock_def decoded_good
      decoded_multicall example_logs)

theorem log_items_witness:
  "transform example_deps spec_helpers exampleHeader (Some exampleBlock) = Inr exampleStore
   \<and> length (filter (\<lambda>item. collection item = ''logs'') exampleStore) = 3
   \<and> length (filter (\<lambda>item. collection item = ''logs'') exampleStore) =
       sum_list (map (nonFilteredEvents spec_helpers exampleHeader)
         (survivors example_deps spec_helpers exampleHeader (Some exampleBlock)))
   \<and> (\<exists>ks. mset ks = mset (map snd (survivors example_deps spec_helpers exampleHeader (Some exampleBlock)))
         \<and> butlast exampleStore = concat (map taskItems ks)
         \<and> (\<forall>k \<in> set ks.
              map lg_logIndex (tk_ethLogs k) =
                map (\<lambda>i. Some (toString i)) [0 ..< length (tk_ethLogs k)]))"
proof -
  have "length (filter (\<lambda>item. collection item = ''logs'') exampleStore) = 3"
    by (simp add: exampleStore_def)
  then show ?thesis
    using log_items [OF example_transform] example_transform by blast
qed

subsection \<open>The block bloom\<close>

lemma orAll_mset:
  assumes "mset bs = mset bs'"
  shows "orAll bs = orAll bs'"
proof -
  have c: "(OR) x \<circ> (OR) y = (OR) y \<circ> (OR) x" for x y :: bloom
    by (auto simp: fun_eq_iff ac_simps)
  have "fold (OR) (rev bs) (0::bloom) = fold (OR) (rev bs') 0"
    by (rule arg_cong [where f = "\<lambda>f. f 0"], rule fold_multiset_equiv) (simp_all add: c assms)
  then show ?thesis
    by (simp add: orAll_def foldr_conv_fold)
qed

lemma survivors_delivery:
  "map fst (eventsOrEmpty events') = map fst (eventsOrEmpty events) \<Longrightarrow>
   survivors D H header events' = survivors D H header events"
proof -
  have s: "survivors D H header ev =
      concat (map (\<lambda>x. case decoded D H header x of Inr (Some k) \<Rightarrow> [(x, k)] | _ \<Rightarrow> [])
        (map fst (eventsOrEmpty ev)))" for ev
    by (simp add: survivors_def survivorOf_def [abs_def] comp_def)
  assume "map fst (eventsOrEmpty events') = map fst (eventsOrEmpty events)"
  then show ?thesis
    by (simp only: s)
qed

lemma awaitAll_bloom:
  assumes "awaitAll D H header events = Inr st"
  shows "bs_blockLogsBloom st = orAll (map (receiptBloom \<circ> snd) (survivors D H header events))"
proof -
  let ?tasks = "pendingTasks (outcomes D H header (eventsOrEmpty events))"
  from assms have "st = finalState D H ?tasks"
    by (simp add: awaitAll_closed_form split: option.splits)
  then have "bs_blockLogsBloom st =
      orAll (map receiptBloom (map fst (sort_key secondPutSettled ?tasks)))"
    by (simp add: finalState_def)
  also have "\<dots> = orAll (map receiptBloom (map snd (survivors D H header events)))"
    by (rule orAll_mset) (metis completed_mset mset_map)
  finally show ?thesis by simp
qed

text \<open>
  Claim C8. The bloom that \<^verbatim>\<open>transform\<close> holds after all tasks, which it hands to
  \<^verbatim>\<open>toEthHeader\<close>, is the OR-reduction of the receipt blooms of the surviving
  invocations. ORing these blooms in any other order gives the same value, and so does
  any other schedule of the same delivery.
\<close>

theorem block_bloom:
  assumes "awaitAll D H header events = Inr st"
  shows "bs_blockLogsBloom st = orAll (map (receiptBloom \<circ> snd) (survivors D H header events))
       \<and> (\<forall>ks. mset ks = mset (map snd (survivors D H header events)) \<longrightarrow>
             orAll (map receiptBloom ks) = bs_blockLogsBloom st)
       \<and> (\<forall>events' st'.
             map fst (eventsOrEmpty events') = map fst (eventsOrEmpty events)
             \<and> awaitAll D H header events' = Inr st' \<longrightarrow>
             bs_blockLogsBloom st' = bs_blockLogsBloom st)"
proof (intro conjI allI impI)
  show b: "bs_blockLogsBloom st = orAll (map (receiptBloom \<circ> snd) (survivors D H header events))"
    by (rule awaitAll_bloom [OF assms])
  show "orAll (map receiptBloom ks) = bs_blockLogsBloom st"
    if "mset ks = mset (map snd (survivors D H header events))" for ks
  proof -
    from that have "mset (map receiptBloom ks) =
        mset (map receiptBloom (map snd (survivors D H header events)))"
      by (metis mset_map)
    then have "orAll (map receiptBloom ks) =
        orAll (map receiptBloom (map snd (survivors D H header events)))"
      by (rule orAll_mset)
    with b show ?thesis by simp
  qed
  show "bs_blockLogsBloom st' = bs_blockLogsBloom st"
    if "map fst (eventsOrEmpty events') = map fst (eventsOrEmpty events)
        \<and> awaitAll D H header events' = Inr st'" for events' st'
    using that b awaitAll_bloom [of D H header events' st'] survivors_delivery [of events' events D H header]
    by simp
qed

lemma fifo_awaitAll:
  "awaitAll example_deps spec_helpers exampleHeader (Some fifoBlock) =
     Inr (finalState example_deps spec_helpers
       [(exampleTask 1 100 [exampleLog 1 ''0'', exampleLog 1 ''1''], 0, 0),
        (exampleTask 0 50 [exampleLog 0 ''0''], 0, 0)])"
  by (simp add: awaitAll_closed_form eventsOrEmpty_def outcomes_def fifoBlock_def decoded_good
      decoded_multicall example_logs withTimes_def)

theorem block_bloom_witness:
  "awaitAll example_deps spec_helpers exampleHeader (Some exampleBlock) = Inr exampleState
   \<and> bs_blockLogsBloom exampleState = 6
   \<and> bs_blockLogsBloom exampleState =
       orAll (map (receiptBloom \<circ> snd)
         (survivors example_deps spec_helpers exampleHeader (Some exampleBlock)))
   \<and> orAll (map receiptBloom
        [exampleTask 0 50 [exampleLog 0 ''0''],
         exampleTask 1 100 [exampleLog 1 ''0'', exampleLog 1 ''1'']]) =
       bs_blockLogsBloom exampleState
   \<and> bs_blockLogsBloom (finalState example_deps spec_helpers
        [(exampleTask 1 100 [exampleLog 1 ''0'', exampleLog 1 ''1''], 0, 0),
         (exampleTask 0 50 [exampleLog 0 ''0''], 0, 0)]) =
       bs_blockLogsBloom exampleState"
proof -
  note b = block_bloom [OF example_awaitAll]
  have p: "mset [exampleTask 0 50 [exampleLog 0 ''0''],
        exampleTask 1 100 [exampleLog 1 ''0'', exampleLog 1 ''1'']] =
      mset (map snd (survivors example_deps spec_helpers exampleHeader (Some exampleBlock)))"
    by (simp add: example_survivors)
  have d: "map fst (eventsOrEmpty (Some fifoBlock)) = map fst (eventsOrEmpty (Some exampleBlock))"
    by (simp add: eventsOrEmpty_def fifoBlock_def exampleBlock_def)
  have v: "bs_blockLogsBloom exampleState = 6"
    by (simp add: exampleState_def)
  from b p have "orAll (map receiptBloom
        [exampleTask 0 50 [exampleLog 0 ''0''],
         exampleTask 1 100 [exampleLog 1 ''0'', exampleLog 1 ''1'']]) =
       bs_blockLogsBloom exampleState"
    by blast
  moreover from b d fifo_awaitAll have "bs_blockLogsBloom (finalState example_deps spec_helpers
        [(exampleTask 1 100 [exampleLog 1 ''0'', exampleLog 1 ''1''], 0, 0),
         (exampleTask 0 50 [exampleLog 0 ''0''], 0, 0)]) =
       bs_blockLogsBloom exampleState"
    by blast
  ultimately show ?thesis
    using b v example_awaitAll by blast
qed

subsection \<open>Cumulative gas\<close>

text \<open>
  Every task reads \<^verbatim>\<open>cumulativeGasUsed\<close> before its first \<^verbatim>\<open>await\<close> and adds to it
  after its second, so every receipt is built from the initial total 0.
\<close>

lemma receipts_built_on_zero:
  assumes "transform D H header events = Inr items" and "Receipts rcpt \<in> set items"
  shows "\<exists>x k. (x, k) \<in> set (survivors D H header events) \<and>
    rcpt = toEthReceipt H (tk_ethTx k) (tk_ethLogs k) (ewt_event x) 0
      (blockNumberOf H header) (blockHashOf H header)"
proof -
  from transform_closed_form [OF assms(1)] obtain tasks ethHeader where
    tasks: "tasks = pendingTasks (outcomes D H header (eventsOrEmpty events))" and
    items: "items = concat (map (taskItems \<circ> fst) (sort_key secondPutSettled tasks)) @ [Headers ethHeader]"
    by blast
  from assms(2) items obtain kt where kt: "kt \<in> set tasks" "Receipts rcpt \<in> set (taskItems (fst kt))"
    by auto
  then have r: "rcpt = tk_ethReceipt (fst kt)"
    by (auto simp: taskItems_def)
  from kt(1) have "fst kt \<in> set (map fst tasks)"
    by simp
  then have "fst kt \<in> set (map snd (survivors D H header events))"
    by (simp only: tasks pendingTasks_outcomes survivors_def)
  then obtain x where x: "(x, fst kt) \<in> set (survivors D H header events)"
    by auto
  then have "decoded D H header x = Inr (Some (fst kt))"
    by (rule survivors_decoded)
  from decoded_Some(2) [OF this] r x show ?thesis
    by blast
qed

text \<open>
  Claim C1 says that the receipts carry the gas accumulated in ascending
  \<^verbatim>\<open>transactionIndex\<close> order. The code does not: it never orders the tasks by index, and
  every receipt gets its own \<^verbatim>\<open>gasUsed\<close> as \<^verbatim>\<open>cumulativeGasUsed\<close>. For the two
  invocations with index 1 (100 gas) and index 0 (50 gas), delivered in this order or
  in index order, the receipt of index 1 has 100 where the claim asks for 150.
\<close>

theorem cumulative_gas_at_failing_input:
  "map_sum id receiptGas
     (transform example_deps spec_helpers exampleHeader (Some outOfOrderBlock)) =
     Inr [(1, 100), (0, 50)]
   \<and> map_sum id receiptGas
     (transform example_deps spec_helpers exampleHeader (Some inOrderBlock)) =
     Inr [(0, 50), (1, 100)]"
  by (simp add: outOfOrderBlock_def inOrderBlock_def example_tx_defs example_block_defs)

end
